theory Spec2Isabelle
  imports Main
begin

section \<open>Python values\<close>

text \<open>
  A Python \<open>str\<close> is a sequence of Unicode code points, so a string of the program is a
  list of naturals; \<open>lit\<close> reads an ASCII literal of the source.  The values that travel
  through the program are the ones JSON decoding can produce (numbers are kept to the
  integers).  A \<open>dict\<close> is an association list read with \<open>map_of\<close>.
\<close>

type_synonym pystr = "nat list"

definition lit :: "string \<Rightarrow> pystr" where
  "lit s = map of_char s"

datatype pyval =
    PNone
  | PBool bool
  | PInt int
  | PStr pystr
  | PList "pyval list"
  | PDict "(pystr \<times> pyval) list"

datatype exn =
    KeyError
  | TypeError
  | AttributeError
  | ValueError
  | DatabaseError

text \<open>Truth value of an object, as \<open>if x:\<close> and \<open>not x\<close> test it.\<close>

fun truthy :: "pyval \<Rightarrow> bool" where
  "truthy PNone = False"
| "truthy (PBool b) = b"
| "truthy (PInt i) = (i \<noteq> 0)"
| "truthy (PStr s) = (s \<noteq> [])"
| "truthy (PList xs) = (xs \<noteq> [])"
| "truthy (PDict kvs) = (kvs \<noteq> [])"

text \<open>\<open>len(x)\<close>: defined on strings, lists and dicts, a \<open>TypeError\<close> elsewhere.\<close>

fun py_len :: "pyval \<Rightarrow> exn + nat" where
  "py_len (PStr s) = Inr (length s)"
| "py_len (PList xs) = Inr (length xs)"
| "py_len (PDict kvs) = Inr (length kvs)"
| "py_len _ = Inl TypeError"

text \<open>\<open>x[k]\<close> with a string key: a \<open>KeyError\<close> on a dict without the key, a
  \<open>TypeError\<close> on every other kind of value.\<close>

fun subscript :: "pyval \<Rightarrow> pystr \<Rightarrow> exn + pyval" where
  "subscript (PDict kvs) k = (case map_of kvs k of None \<Rightarrow> Inl KeyError | Some v \<Rightarrow> Inr v)"
| "subscript _ k = Inl TypeError"

text \<open>\<open>d.get(k, default)\<close> on the entries of a dict.\<close>

definition dict_get :: "(pystr \<times> pyval) list \<Rightarrow> pystr \<Rightarrow> pyval \<Rightarrow> pyval" where
  "dict_get kvs k d = (case map_of kvs k of None \<Rightarrow> d | Some v \<Rightarrow> v)"

text \<open>\<open>k in d\<close> for a dict \<open>d\<close>.\<close>

definition has_key :: "(pystr \<times> pyval) list \<Rightarrow> pystr \<Rightarrow> bool" where
  "has_key kvs k = (map_of kvs k \<noteq> None)"

section \<open>String methods\<close>

text \<open>
  \<open>str.upper\<close> maps every code point by the Unicode table of the runtime.  On ASCII the
  table is written out; beyond ASCII it is the parameter \<open>uc\<close> (one code point may
  become several).
\<close>

definition upper_cp :: "(nat \<Rightarrow> pystr) \<Rightarrow> nat \<Rightarrow> pystr" where
  "upper_cp uc c =
     (if 97 \<le> c \<and> c \<le> 122 then [c - 32]
      else if c < 128 then [c]
      else uc c)"

definition py_upper :: "(nat \<Rightarrow> pystr) \<Rightarrow> pystr \<Rightarrow> pystr" where
  "py_upper uc s = concat (map (upper_cp uc) s)"

text \<open>The code points \<open>str.isspace\<close> accepts; \<open>str.strip()\<close> removes them at both ends.\<close>

definition py_isspace :: "nat \<Rightarrow> bool" where
  "py_isspace c =
     ((9 \<le> c \<and> c \<le> 13) \<or> (28 \<le> c \<and> c \<le> 32) \<or> c = 133 \<or> c = 160 \<or> c = 5760
      \<or> (8192 \<le> c \<and> c \<le> 8202) \<or> c = 8232 \<or> c = 8233 \<or> c = 8239 \<or> c = 8287
      \<or> c = 12288)"

definition py_strip :: "pystr \<Rightarrow> pystr" where
  "py_strip s = rev (dropWhile py_isspace (rev (dropWhile py_isspace s)))"

text \<open>\<open>s.split(',')[0]\<close>: the part of \<open>s\<close> before its first comma (all of \<open>s\<close> when it
  has none); the list \<open>split\<close> returns is never empty.\<close>

definition split_comma_first :: "pystr \<Rightarrow> pystr" where
  "split_comma_first s = takeWhile (\<lambda>c. c \<noteq> 44) s"

section \<open>The validator\<close>

text \<open>
  The regular expressions \<open>validate_ip\<close> needs: a literal character, a character class
  (a list of inclusive ranges), concatenation, alternation, \<open>?\<close>, and the anchor \<open>$\<close>.
  \<open>matchk r s k\<close> holds when \<open>r\<close> matches a prefix of \<open>s\<close> and the continuation \<open>k\<close>
  accepts the rest, which is what the backtracking engine searches for.  Without the
  MULTILINE flag \<open>$\<close> matches at the end of the string and also just before a newline
  that is the last character of the string.
\<close>

datatype regex =
    Eps
  | Chr nat
  | Cls "(nat \<times> nat) list"
  | Cat regex regex
  | Alt regex regex
  | Opt regex
  | Dollar

fun matchk :: "regex \<Rightarrow> pystr \<Rightarrow> (pystr \<Rightarrow> bool) \<Rightarrow> bool" where
  "matchk Eps s k = k s"
| "matchk (Chr c) s k = (case s of [] \<Rightarrow> False | x # xs \<Rightarrow> x = c \<and> k xs)"
| "matchk (Cls rs) s k =
     (case s of [] \<Rightarrow> False | x # xs \<Rightarrow> list_ex (\<lambda>(lo, hi). lo \<le> x \<and> x \<le> hi) rs \<and> k xs)"
| "matchk (Cat a b) s k = matchk a s (\<lambda>t. matchk b t k)"
| "matchk (Alt a b) s k = (matchk a s k \<or> matchk b s k)"
| "matchk (Opt a) s k = (matchk a s k \<or> k s)"
| "matchk Dollar s k = ((s = [] \<or> s = [10]) \<and> k s)"

text \<open>\<open>r{n}\<close>.\<close>

fun rep :: "nat \<Rightarrow> regex \<Rightarrow> regex" where
  "rep 0 r = Eps"
| "rep (Suc n) r = Cat r (rep n r)"

text \<open>\<open>re.match(p, s) is not None\<close>: the match starts at the beginning of \<open>s\<close> (where a
  leading \<open>^\<close> holds) and may stop anywhere.\<close>

definition re_match :: "regex \<Rightarrow> pystr \<Rightarrow> bool" where
  "re_match r s = matchk r s (\<lambda>t. True)"

definition digit_cls :: "nat \<Rightarrow> nat \<Rightarrow> regex" where
  "digit_cls a b = Cls [(48 + a, 48 + b)]"

text \<open>\<open>25[0-5]|2[0-4][0-9]|[01]?[0-9][0-9]?\<close>\<close>

definition octet_re :: regex where
  "octet_re =
     Alt (Cat (Chr 50) (Cat (Chr 53) (digit_cls 0 5)))
    (Alt (Cat (Chr 50) (Cat (digit_cls 0 4) (digit_cls 0 9)))
         (Cat (Opt (Cls [(48, 48), (49, 49)])) (Cat (digit_cls 0 9) (Opt (digit_cls 0 9)))))"

text \<open>\<open>^(?:(?:octet)\.){3}(?:octet)$\<close>\<close>

definition ip_pattern :: regex where
  "ip_pattern = Cat (rep 3 (Cat octet_re (Chr 46))) (Cat octet_re Dollar)"

definition validate_ip :: "pystr \<Rightarrow> bool" where
  "validate_ip ip = re_match ip_pattern ip"

section \<open>The country flag\<close>

text \<open>The placeholder U+1F30D, and \<open>chr(ord(c) + 127397)\<close>, which raises \<open>ValueError\<close>
  beyond U+10FFFF.\<close>

definition globe :: pystr where
  "globe = [127757]"

definition get_country_flag :: "(nat \<Rightarrow> pystr) \<Rightarrow> pyval \<Rightarrow> exn + pystr" where
  "get_country_flag uc country_code =
     (if \<not> truthy country_code then Inr globe
      else case py_len country_code of
        Inl e \<Rightarrow> Inl e
      | Inr n \<Rightarrow>
          if n \<noteq> 2 then Inr globe
          else (case country_code of
              PStr s \<Rightarrow>
                (let u = py_upper uc s
                 in if list_all (\<lambda>c. c + 127397 \<le> 1114111) u
                    then Inr (map (\<lambda>c. c + 127397) u)
                    else Inl ValueError)
            | _ \<Rightarrow> Inl AttributeError))"

section \<open>The environment of a request\<close>

text \<open>
  A row of the table \<open>ip_records\<close> (the surrogate \<open>id\<close> column is left out; no code reads
  it), also used for the parameter tuple of the INSERT.  In the table \<open>ip_address\<close> is the
  INET value of the column, a \<open>PStr\<close> of the text the server prints for it; in a parameter
  tuple it is the Python value passed.  \<open>raw_geo_data\<close> holds the value whose JSON text
  \<open>json.dumps\<close> produces.
\<close>

record row =
  ip_address :: pyval
  country :: pyval
  region :: pyval
  city :: pyval
  org :: pyval
  vpn_detected :: pyval
  vpn_type :: pyval
  raw_geo_data :: pyval
  timestamp :: nat

text \<open>The two SQL statements of the program, and what \<open>requests.get\<close> can give: an
  exception (timeout, connection error), or a response with its status code, its text
  and the result of \<open>.json()\<close> (\<open>None\<close> when decoding raises).\<close>

datatype statement =
    SelectCount pystr
  | InsertOnConflict row

datatype http_reply =
    NoReply
  | Reply nat pystr "pyval option"

datatype event =
    HttpGet pystr
  | Execute statement
  | Commit
  | Rollback

text \<open>
  Everything outside the program that a request handler reads or changes: the table, whether
  \<open>psycopg2.connect\<close> succeeds, whether the server executes a statement or raises on it
  (type and length checks of the columns belong to the server), the INET value the server
  reads from a parameter for the \<open>ip_address\<close> column (given as the text the server prints
  for that value, so that two spellings of one address have one value; it is immaterial
  for a parameter the server refuses), \<open>CURRENT_TIMESTAMP\<close>, the
  network, the request's \<open>X-Forwarded-For\<close> header (empty when absent) and remote address,
  the configured token, the upper-case table beyond ASCII, and the effects performed so
  far, in order.
\<close>

record world =
  ip_records :: "row list"
  db_connects :: bool
  db_executes :: "statement \<Rightarrow> bool"
  inet_in :: "pyval \<Rightarrow> pystr"
  current_timestamp :: nat
  requests_get :: "pystr \<Rightarrow> http_reply"
  x_forwarded_for :: pystr
  remote_addr :: pystr
  ipapi_token :: "pystr option"
  unicode_upper :: "nat \<Rightarrow> pystr"
  trace :: "event list"

definition emit :: "event \<Rightarrow> world \<Rightarrow> world" where
  "emit e w = w\<lparr>trace := trace w @ [e]\<rparr>"

section \<open>The record store\<close>

text \<open>\<open>SELECT COUNT(*) ... WHERE ip_address = %s\<close>; connection and statement errors are
  not caught here.  The column is INET, so the server compares the stored values with the
  INET value it reads from the parameter.\<close>

definition is_ip_in_database :: "world \<Rightarrow> pystr \<Rightarrow> (exn + bool) \<times> world" where
  "is_ip_in_database w ip =
     (if \<not> db_connects w then (Inl DatabaseError, w)
      else let w1 = emit (Execute (SelectCount ip)) w
           in if \<not> db_executes w (SelectCount ip) then (Inl DatabaseError, w1)
              else (Inr (0 < length (filter (\<lambda>r. ip_address r = PStr (inet_in w (PStr ip)))
                                       (ip_records w))), w1))"

text \<open>Sequencing of steps that may raise.\<close>

definition and_then :: "exn + 'a \<Rightarrow> ('a \<Rightarrow> exn + 'b) \<Rightarrow> exn + 'b" where
  "and_then m f = (case m of Inl e \<Rightarrow> Inl e | Inr x \<Rightarrow> f x)"

text \<open>The parameter tuple of the INSERT, evaluated left to right, with the timestamp the
  statement sets.\<close>

definition insert_values :: "nat \<Rightarrow> pyval \<Rightarrow> exn + row" where
  "insert_values t ip_data =
     and_then (subscript ip_data (lit ''ip'')) (\<lambda>v_ip.
     and_then (and_then (subscript ip_data (lit ''location'')) (\<lambda>l. subscript l (lit ''country''))) (\<lambda>v_country.
     and_then (and_then (subscript ip_data (lit ''location'')) (\<lambda>l. subscript l (lit ''region''))) (\<lambda>v_region.
     and_then (and_then (subscript ip_data (lit ''location'')) (\<lambda>l. subscript l (lit ''city''))) (\<lambda>v_city.
     and_then (and_then (subscript ip_data (lit ''location'')) (\<lambda>l. subscript l (lit ''org''))) (\<lambda>v_org.
     and_then (subscript ip_data (lit ''vpn_detected'')) (\<lambda>v_vpn.
     and_then (subscript ip_data (lit ''vpn_type'')) (\<lambda>v_type.
       Inr \<lparr>ip_address = v_ip, country = v_country, region = v_region, city = v_city,
            org = v_org, vpn_detected = v_vpn, vpn_type = v_type, raw_geo_data = ip_data,
            timestamp = t\<rparr>)))))))"

text \<open>The row the server makes of a parameter tuple: the address parameter is read as an
  INET value.\<close>

definition as_stored :: "world \<Rightarrow> row \<Rightarrow> row" where
  "as_stored w r = r\<lparr>ip_address := PStr (inet_in w (ip_address r))\<rparr>"

text \<open>\<open>INSERT ... ON CONFLICT (ip_address) DO UPDATE SET\<close> every column from the new values
  and \<open>timestamp = CURRENT_TIMESTAMP\<close>; the conflict is on the INET value of the UNIQUE
  column.\<close>

definition upsert :: "row \<Rightarrow> row list \<Rightarrow> row list" where
  "upsert r rs =
     (if list_ex (\<lambda>x. ip_address x = ip_address r) rs
      then map (\<lambda>x. if ip_address x = ip_address r then r else x) rs
      else rs @ [r])"

text \<open>
  \<open>save_ip_to_database\<close>: the log line before the \<open>try\<close> reads \<open>ip_data['ip']\<close> and the
  connection is opened there too, so both can raise to the caller; whatever raises inside
  the \<open>try\<close> is answered by a rollback and \<open>False\<close>.
\<close>

definition save_ip_to_database :: "world \<Rightarrow> pyval \<Rightarrow> (exn + bool) \<times> world" where
  "save_ip_to_database w ip_data =
     (case subscript ip_data (lit ''ip'') of
        Inl e \<Rightarrow> (Inl e, w)
      | Inr _ \<Rightarrow>
          if \<not> db_connects w then (Inl DatabaseError, w)
          else (case insert_values (current_timestamp w) ip_data of
              Inl e \<Rightarrow> (Inr False, emit Rollback w)
            | Inr r \<Rightarrow>
                let w1 = emit (Execute (InsertOnConflict r)) w
                in if \<not> db_executes w (InsertOnConflict r)
                   then (Inr False, emit Rollback w1)
                   else (Inr True,
                         emit Commit (w1\<lparr>ip_records := upsert (as_stored w r) (ip_records w)\<rparr>))))"

section \<open>Resolving the subject address\<close>

definition ipify_url :: pystr where
  "ipify_url = lit ''https://api.ipify.org''"

definition get_user_ip :: "world \<Rightarrow> pystr \<times> world" where
  "get_user_ip w =
     (let ip = (if x_forwarded_for w \<noteq> []
                then py_strip (split_comma_first (x_forwarded_for w))
                else remote_addr w)
      in if ip = lit ''127.0.0.1''
         then (case requests_get w ipify_url of
                 NoReply \<Rightarrow> (ip, emit (HttpGet ipify_url) w)
               | Reply code body js \<Rightarrow> (body, emit (HttpGet ipify_url) w))
         else (ip, w))"

definition geo_url :: "pystr option \<Rightarrow> pystr \<Rightarrow> pystr" where
  "geo_url tok ip =
     lit ''https://api.ipinfo.io/lite/'' @ ip @
       (case tok of None \<Rightarrow> [] | Some t \<Rightarrow> if t \<noteq> [] then lit ''?token='' @ t else [])"

text \<open>The data used when the request or the decoding of its body raises.\<close>

definition fallback_geo :: "pystr \<Rightarrow> pyval" where
  "fallback_geo ip =
     PDict [(lit ''ip'', PStr ip),
            (lit ''asn'', PStr (lit ''Unknown'')),
            (lit ''as_name'', PStr (lit ''Unknown'')),
            (lit ''as_domain'', PStr (lit ''Unknown'')),
            (lit ''country_code'', PStr []),
            (lit ''country'', PStr (lit ''Unknown'')),
            (lit ''continent_code'', PStr []),
            (lit ''continent'', PStr (lit ''Unknown''))]"

definition fetch_geo :: "world \<Rightarrow> pystr \<Rightarrow> pyval \<times> world" where
  "fetch_geo w ip =
     (let url = geo_url (ipapi_token w) ip
      in (case requests_get w url of
            NoReply \<Rightarrow> fallback_geo ip
          | Reply code body None \<Rightarrow> fallback_geo ip
          | Reply code body (Some j) \<Rightarrow> j,
          emit (HttpGet url) w))"

definition invalid_ip_result :: "pystr \<Rightarrow> pyval" where
  "invalid_ip_result custom_ip =
     PDict [(lit ''error'', PStr (lit ''Invalid IP address format'')), (lit ''ip'', PStr custom_ip)]"

text \<open>The dict built by the final \<open>return\<close> of \<open>get_ip_info\<close>.\<close>

definition ip_info_result ::
  "pystr \<Rightarrow> pystr \<Rightarrow> (pystr \<times> pyval) list \<Rightarrow> pyval \<Rightarrow> pystr \<Rightarrow> pyval" where
  "ip_info_result status ip geo country_code country_flag =
     PDict [(lit ''status'', PStr status),
            (lit ''ip'', dict_get geo (lit ''ip'') (PStr ip)),
            (lit ''location'', PDict
               [(lit ''country'', dict_get geo (lit ''country'') (PStr (lit ''Unknown''))),
                (lit ''country_code'', country_code),
                (lit ''country_flag'', PStr country_flag),
                (lit ''continent'', dict_get geo (lit ''continent'') (PStr (lit ''Unknown''))),
                (lit ''continent_code'', dict_get geo (lit ''continent_code'') (PStr [])),
                (lit ''asn'', dict_get geo (lit ''asn'') (PStr (lit ''Unknown''))),
                (lit ''as_name'', dict_get geo (lit ''as_name'') (PStr (lit ''Unknown''))),
                (lit ''as_domain'', dict_get geo (lit ''as_domain'') (PStr (lit ''Unknown'')))]),
            (lit ''vpn_detected'', PBool False),
            (lit ''vpn_type'', PNone)]"

text \<open>
  Everything of \<open>get_ip_info\<close> after the subject address is known: the fetch, then the
  existence check, then the \<open>.get\<close> calls on the fetched data, which raise
  \<open>AttributeError\<close> when the decoded body is not an object.
\<close>

definition resolve_ip :: "world \<Rightarrow> pystr \<Rightarrow> (exn + pyval) \<times> world" where
  "resolve_ip w ip =
     (case fetch_geo w ip of (geo_data, w1) \<Rightarrow>
      (case is_ip_in_database w1 ip of
         (Inl e, w2) \<Rightarrow> (Inl e, w2)
       | (Inr found, w2) \<Rightarrow>
           (case geo_data of
              PDict geo \<Rightarrow>
                (let country_code = dict_get geo (lit ''country_code'') (PStr [])
                 in (case get_country_flag (unicode_upper w) country_code of
                       Inl e \<Rightarrow> (Inl e, w2)
                     | Inr country_flag \<Rightarrow>
                         (Inr (ip_info_result (if found then lit ''duplicate'' else lit ''new'')
                                 ip geo country_code country_flag), w2)))
            | _ \<Rightarrow> (Inl AttributeError, w2))))"

text \<open>The first lines of \<open>get_ip_info\<close>: the subject address, or the dict returned at once
  for a custom address the validator refuses.\<close>

definition subject_ip :: "world \<Rightarrow> pystr option \<Rightarrow> (pyval + pystr) \<times> world" where
  "subject_ip w custom_ip =
     (case custom_ip of
        Some c \<Rightarrow>
          if c \<noteq> [] then
            (if \<not> validate_ip c then (Inl (invalid_ip_result c), w) else (Inr c, w))
          else (case get_user_ip w of (ip, w1) \<Rightarrow> (Inr ip, w1))
      | None \<Rightarrow> (case get_user_ip w of (ip, w1) \<Rightarrow> (Inr ip, w1)))"

definition get_ip_info :: "world \<Rightarrow> pystr option \<Rightarrow> (exn + pyval) \<times> world" where
  "get_ip_info w custom_ip =
     (case subject_ip w custom_ip of
        (Inl invalid, w1) \<Rightarrow> (Inr invalid, w1)
      | (Inr ip, w1) \<Rightarrow> resolve_ip w1 ip)"

section \<open>The save handlers\<close>

text \<open>
  The answers of \<open>/api/save-ip\<close>, one constructor for each \<open>jsonify\<close> payload: status 400
  with the error message; status 200 with \<open>success: True\<close> and the record; status 500
  \<open>Failed to save IP to database\<close>; status 200 with \<open>success: False\<close>,
  \<open>IP already exists in database\<close> and the record; status 500 \<open>Server error occurred\<close>
  from the handler's catch-all.
\<close>

datatype api_response =
    BadRequest pyval
  | Saved pyval
  | SaveFailed
  | AlreadyExists pyval
  | ServerError

text \<open>
  What \<open>api_save_ip\<close> does with the dict \<open>get_ip_info\<close> returned.  A missing key raises
  \<open>KeyError\<close> (the status test, and the log line of the last branch, which reads
  \<open>ip_data['ip']\<close>), answered by the catch-all like every other exception.
\<close>

definition api_save_ip_persist :: "world \<Rightarrow> (pystr \<times> pyval) list \<Rightarrow> api_response \<times> world" where
  "api_save_ip_persist w ip_data =
     (if has_key ip_data (lit ''error'') then (BadRequest (dict_get ip_data (lit ''error'') PNone), w)
      else (case map_of ip_data (lit ''status'') of
          None \<Rightarrow> (ServerError, w)
        | Some status \<Rightarrow>
            if status = PStr (lit ''new'') then
              (case save_ip_to_database w (PDict ip_data) of
                 (Inl e, w1) \<Rightarrow> (ServerError, w1)
               | (Inr ok, w1) \<Rightarrow> if ok then (Saved (PDict ip_data), w1) else (SaveFailed, w1))
            else (case map_of ip_data (lit ''ip'') of
                    None \<Rightarrow> (ServerError, w)
                  | Some v \<Rightarrow> (AlreadyExists (PDict ip_data), w))))"

text \<open>\<open>api_save_ip\<close> on the decoded request body (\<open>None\<close> when \<open>request.get_json()\<close>
  raises).\<close>

definition api_save_ip :: "world \<Rightarrow> pyval option \<Rightarrow> api_response \<times> world" where
  "api_save_ip w body =
     (case body of
        Some (PDict data) \<Rightarrow>
          (case dict_get data (lit ''ip_address'') (PStr []) of
             PStr s \<Rightarrow>
               (let ip_address = py_strip s
                in if ip_address = [] then (BadRequest (PStr (lit ''IP address is required'')), w)
                   else (case get_ip_info w (Some ip_address) of
                       (Inr (PDict ip_data), w1) \<Rightarrow> api_save_ip_persist w1 ip_data
                     | (_, w1) \<Rightarrow> (ServerError, w1)))
           | _ \<Rightarrow> (ServerError, w))
      | _ \<Rightarrow> (ServerError, w))"

text \<open>The flashed messages of the form handler \<open>/save-ip\<close>, which has no catch-all.\<close>

datatype flash_message =
    FlashSaved pyval
  | FlashSaveError
  | FlashExists

definition save_ip_persist :: "world \<Rightarrow> pyval \<Rightarrow> (exn + flash_message) \<times> world" where
  "save_ip_persist w data =
     (case subscript data (lit ''status'') of
        Inl e \<Rightarrow> (Inl e, w)
      | Inr status \<Rightarrow>
          if status = PStr (lit ''new'') then
            (case save_ip_to_database w data of
               (Inl e, w1) \<Rightarrow> (Inl e, w1)
             | (Inr ok, w1) \<Rightarrow>
                 if ok then (and_then (subscript data (lit ''ip'')) (\<lambda>v. Inr (FlashSaved v)), w1)
                 else (Inr FlashSaveError, w1))
          else (Inr FlashExists, w))"

definition save_ip :: "world \<Rightarrow> pystr option \<Rightarrow> (exn + flash_message) \<times> world" where
  "save_ip w ip_to_save =
     (case (case ip_to_save of
              Some s \<Rightarrow> if s \<noteq> [] then get_ip_info w (Some s) else get_ip_info w None
            | None \<Rightarrow> get_ip_info w None) of
        (Inl e, w1) \<Rightarrow> (Inl e, w1)
      | (Inr data, w1) \<Rightarrow> save_ip_persist w1 data)"

section \<open>Vocabulary of the statements\<close>

text \<open>A run of \<open>save_ip_to_database\<close> calls, each at its own \<open>CURRENT_TIMESTAMP\<close>.\<close>

fun save_all :: "world \<Rightarrow> (nat \<times> pyval) list \<Rightarrow> world" where
  "save_all w [] = w"
| "save_all w ((t, d) # calls) =
     save_all (snd (save_ip_to_database (w\<lparr>current_timestamp := t\<rparr>) d)) calls"

text \<open>The regional-indicator symbol of an ASCII letter (U+1F1E6 stands for A).\<close>

definition ascii_letter :: "nat \<Rightarrow> bool" where
  "ascii_letter c = ((65 \<le> c \<and> c \<le> 90) \<or> (97 \<le> c \<and> c \<le> 122))"

definition regional_indicator :: "nat \<Rightarrow> nat" where
  "regional_indicator c = 127462 + (if 97 \<le> c then c - 97 else c - 65)"

text \<open>A decimal octet: one to three ASCII digits whose value is at most 255.\<close>

definition is_digit :: "nat \<Rightarrow> bool" where
  "is_digit c = (48 \<le> c \<and> c \<le> 57)"

definition decimal_value :: "pystr \<Rightarrow> nat" where
  "decimal_value s = foldl (\<lambda>n c. 10 * n + (c - 48)) 0 s"

definition octet_str :: "pystr \<Rightarrow> bool" where
  "octet_str s = (s \<noteq> [] \<and> length s \<le> 3 \<and> list_all is_digit s \<and> decimal_value s \<le> 255)"

section \<open>Sample inputs\<close>

text \<open>
  A server's reading of dotted quads: the four decimal octets without their leading
  zeros.  The samples pass it dotted quads only; any other text stands for itself.
\<close>

fun fields :: "nat \<Rightarrow> pystr \<Rightarrow> pystr list" where
  "fields sep [] = [[]]"
| "fields sep (x # xs) =
     (if x = sep then [] # fields sep xs
      else (case fields sep xs of [] \<Rightarrow> [[x]] | f # fs \<Rightarrow> (x # f) # fs))"

fun join_dots :: "pystr list \<Rightarrow> pystr" where
  "join_dots [] = []"
| "join_dots [f] = f"
| "join_dots (f # g # fs) = f @ 46 # join_dots (g # fs)"

definition octet_text :: "nat \<Rightarrow> pystr" where
  "octet_text n =
     (if n < 10 then [48 + n]
      else if n < 100 then [48 + n div 10, 48 + n mod 10]
      else [48 + n div 100, 48 + (n div 10) mod 10, 48 + n mod 10])"

definition inet_ipv4 :: "pyval \<Rightarrow> pystr" where
  "inet_ipv4 v =
     (case v of
        PStr s \<Rightarrow>
          (let fs = fields 46 s
           in if length fs = 4 \<and> list_all octet_str fs
              then join_dots (map (\<lambda>f. octet_text (decimal_value f)) fs)
              else s)
      | _ \<Rightarrow> [])"

text \<open>A provider answer for 8.8.8.8, an environment with an empty table where every
  request gets that answer, and the dict \<open>get_ip_info\<close> builds from it.\<close>

definition google_geo :: "(pystr \<times> pyval) list" where
  "google_geo = [(lit ''ip'', PStr (lit ''8.8.8.8'')), (lit ''asn'', PStr (lit ''AS15169'')),
     (lit ''as_name'', PStr (lit ''Google LLC'')), (lit ''as_domain'', PStr (lit ''google.com'')),
     (lit ''country_code'', PStr (lit ''US'')), (lit ''country'', PStr (lit ''United States'')),
     (lit ''continent_code'', PStr (lit ''NA'')), (lit ''continent'', PStr (lit ''North America''))]"

definition sample_world :: world where
  "sample_world = \<lparr>ip_records = [], db_connects = True, db_executes = (\<lambda>s. True),
     inet_in = inet_ipv4,
     current_timestamp = 1000, requests_get = (\<lambda>url. Reply 200 [] (Some (PDict google_geo))),
     x_forwarded_for = [], remote_addr = lit ''203.0.113.9'', ipapi_token = None,
     unicode_upper = (\<lambda>c. [c]), trace = []\<rparr>"

definition google_record :: pyval where
  "google_record = ip_info_result (lit ''new'') (lit ''8.8.8.8'') google_geo (PStr (lit ''US'')) [127482, 127480]"

text \<open>A dict of the shape \<open>save_ip_to_database\<close> reads, with \<open>region\<close>, \<open>city\<close> and \<open>org\<close>
  under \<open>location\<close>, and the row the INSERT makes of it at time \<open>t\<close>.\<close>

definition legacy_entries :: "pystr \<Rightarrow> pystr \<Rightarrow> (pystr \<times> pyval) list" where
  "legacy_entries ip c =
     [(lit ''status'', PStr (lit ''new'')),
      (lit ''ip'', PStr ip),
      (lit ''location'', PDict
         [(lit ''country'', PStr c),
          (lit ''region'', PStr (lit ''California'')),
          (lit ''city'', PStr (lit ''Mountain View'')),
          (lit ''org'', PStr (lit ''AS15169 Google LLC''))]),
      (lit ''vpn_detected'', PBool False),
      (lit ''vpn_type'', PNone)]"

definition legacy_record :: "pystr \<Rightarrow> pystr \<Rightarrow> pyval" where
  "legacy_record ip c = PDict (legacy_entries ip c)"

definition legacy_row :: "nat \<Rightarrow> pystr \<Rightarrow> pystr \<Rightarrow> row" where
  "legacy_row t ip c =
     \<lparr>ip_address = PStr ip, country = PStr c, region = PStr (lit ''California''),
      city = PStr (lit ''Mountain View''), org = PStr (lit ''AS15169 Google LLC''),
      vpn_detected = PBool False, vpn_type = PNone, raw_geo_data = legacy_record ip c,
      timestamp = t\<rparr>"

section \<open>Basic facts\<close>

lemma rep_3: "rep 3 r = Cat r (Cat r (Cat r Eps))" by (simp add: numeral_3_eq_3)

lemmas validate_ip_eval = validate_ip_def re_match_def ip_pattern_def octet_re_def digit_cls_def lit_def rep_3

lemma validate_8888: "validate_ip (lit ''8.8.8.8'')"
  by (simp add: validate_ip_eval)

lemma lit_nonempty_8888: "lit ''8.8.8.8'' \<noteq> []" by (simp add: lit_def)

lemma result_ip: "subscript (ip_info_result st ip geo cc fl) (lit ''ip'') = Inr (dict_get geo (lit ''ip'') (PStr ip))"
  by (simp add: ip_info_result_def lit_def)

lemma result_status: "subscript (ip_info_result st ip geo cc fl) (lit ''status'') = Inr (PStr st)"
  by (simp add: ip_info_result_def lit_def)

lemma result_no_error: "subscript (ip_info_result st ip geo cc fl) (lit ''error'') = Inl KeyError"
  by (simp add: ip_info_result_def lit_def)

lemma result_no_region:
  "and_then (subscript (ip_info_result st ip geo cc fl) (lit ''location'')) (\<lambda>l. subscript l (lit ''region'')) = Inl KeyError"
  by (simp add: ip_info_result_def lit_def and_then_def)

lemma result_no_city:
  "and_then (subscript (ip_info_result st ip geo cc fl) (lit ''location'')) (\<lambda>l. subscript l (lit ''city'')) = Inl KeyError"
  by (simp add: ip_info_result_def lit_def and_then_def)

lemma result_no_org:
  "and_then (subscript (ip_info_result st ip geo cc fl) (lit ''location'')) (\<lambda>l. subscript l (lit ''org'')) = Inl KeyError"
  by (simp add: ip_info_result_def lit_def and_then_def)

lemma result_country:
  "and_then (subscript (ip_info_result st ip geo cc fl) (lit ''location'')) (\<lambda>l. subscript l (lit ''country''))
     = Inr (dict_get geo (lit ''country'') (PStr (lit ''Unknown'')))"
  by (simp add: ip_info_result_def lit_def and_then_def)

lemma insert_values_result: "insert_values t (ip_info_result st ip geo cc fl) = Inl KeyError"
  unfolding insert_values_def result_ip result_country result_no_region
  by (simp add: and_then_def)

lemma save_result:
  "db_connects w \<Longrightarrow> save_ip_to_database w (ip_info_result st ip geo cc fl) = (Inr False, emit Rollback w)"
  by (simp add: save_ip_to_database_def result_ip insert_values_result)

lemma invalid_has_error: "subscript (invalid_ip_result c) (lit ''error'') = Inr (PStr (lit ''Invalid IP address format''))"
  by (simp add: invalid_ip_result_def)

lemma resolve_ip_shape:
  assumes "resolve_ip w ip = (Inr d, w')"
  shows "\<exists>st geo cc fl. d = ip_info_result st ip geo cc fl"
proof -
  obtain g w1 where f: "fetch_geo w ip = (g, w1)" by (cases "fetch_geo w ip")
  obtain r w2 where i: "is_ip_in_database w1 ip = (r, w2)" by (cases "is_ip_in_database w1 ip")
  show ?thesis
  proof (cases r)
    case (Inl e)
    with assms f i show ?thesis by (simp add: resolve_ip_def)
  next
    case (Inr found)
    show ?thesis
    proof (cases g)
      case (PDict geo)
      show ?thesis
      proof (cases "get_country_flag (unicode_upper w) (dict_get geo (lit ''country_code'') (PStr []))")
        case (Inl e)
        with assms f i Inr PDict show ?thesis by (simp add: resolve_ip_def)
      next
        case (Inr fl)
        with assms f i \<open>r = Inr found\<close> PDict have "d = ip_info_result (if found then lit ''duplicate'' else lit ''new'') ip geo
            (dict_get geo (lit ''country_code'') (PStr [])) fl"
          by (simp add: resolve_ip_def)
        then show ?thesis by blast
      qed
    qed (use assms f i Inr in \<open>simp_all add: resolve_ip_def\<close>)
  qed
qed

lemma get_ip_info_shape:
  assumes "get_ip_info w custom_ip = (Inr d, w')"
  shows "(\<exists>c. d = invalid_ip_result c) \<or> (\<exists>st ip geo cc fl. d = ip_info_result st ip geo cc fl)"
proof -
  obtain s w1 where sub: "subject_ip w custom_ip = (s, w1)" by (cases "subject_ip w custom_ip")
  show ?thesis
  proof (cases s)
    case (Inl bad)
    with assms sub have "d = bad" by (simp add: get_ip_info_def)
    moreover from sub Inl have "\<exists>c. bad = invalid_ip_result c"
      by (auto simp: subject_ip_def split: option.splits if_splits prod.splits)
    ultimately show ?thesis by blast
  next
    case (Inr ip)
    with assms sub have "resolve_ip w1 ip = (Inr d, w')" by (simp add: get_ip_info_def)
    from resolve_ip_shape [OF this] show ?thesis by blast
  qed
qed

lemma emit_fields [simp]:
  "ip_records (emit e w) = ip_records w"
  "db_connects (emit e w) = db_connects w"
  "db_executes (emit e w) = db_executes w"
  "inet_in (emit e w) = inet_in w"
  "current_timestamp (emit e w) = current_timestamp w"
  "requests_get (emit e w) = requests_get w"
  "x_forwarded_for (emit e w) = x_forwarded_for w"
  "remote_addr (emit e w) = remote_addr w"
  "ipapi_token (emit e w) = ipapi_token w"
  "unicode_upper (emit e w) = unicode_upper w"
  "trace (emit e w) = trace w @ [e]"
  by (simp_all add: emit_def)

lemma sample_world_fields [simp]:
  "ip_records sample_world = []"
  "db_connects sample_world"
  "db_executes sample_world s"
  "inet_in sample_world = inet_ipv4"
  "current_timestamp sample_world = 1000"
  "requests_get sample_world url = Reply 200 [] (Some (PDict google_geo))"
  "x_forwarded_for sample_world = []"
  "remote_addr sample_world = lit ''203.0.113.9''"
  "ipapi_token sample_world = None"
  "unicode_upper sample_world = (\<lambda>c. [c])"
  "trace sample_world = []"
  by (simp_all add: sample_world_def)

lemma flag_US: "get_country_flag uc (PStr (lit ''US'')) = Inr [127482, 127480]"
  by (simp add: get_country_flag_def py_upper_def upper_cp_def lit_def)

lemma google_country_code: "dict_get google_geo (lit ''country_code'') d = PStr (lit ''US'')"
  by (simp add: dict_get_def google_geo_def lit_def)

lemma info_8888:
  "get_ip_info sample_world (Some (lit ''8.8.8.8'')) =
     (Inr google_record,
      emit (Execute (SelectCount (lit ''8.8.8.8''))) (emit (HttpGet (geo_url None (lit ''8.8.8.8''))) sample_world))"
  by (simp add: get_ip_info_def subject_ip_def validate_8888 lit_nonempty_8888 resolve_ip_def fetch_geo_def
      is_ip_in_database_def google_country_code flag_US google_record_def)

lemma validate_ip_empty: "\<not> validate_ip []"
  by (simp add: validate_ip_eval)

lemma get_ip_info_custom:
  "validate_ip c \<Longrightarrow> get_ip_info w (Some c) = resolve_ip w c"
  using validate_ip_empty by (auto simp: get_ip_info_def subject_ip_def)

lemma get_ip_info_invalid:
  "c \<noteq> [] \<Longrightarrow> \<not> validate_ip c \<Longrightarrow> get_ip_info w (Some c) = (Inr (invalid_ip_result c), w)"
  by (simp add: get_ip_info_def subject_ip_def)

lemma resolve_ip_reply:
  assumes "requests_get w (geo_url (ipapi_token w) ip) = Reply code body (Some (PDict geo))"
    and "db_connects w" and "db_executes w (SelectCount ip)"
    and "get_country_flag (unicode_upper w) (dict_get geo (lit ''country_code'') (PStr [])) = Inr fl"
  shows "resolve_ip w ip =
     (Inr (ip_info_result
            (if 0 < length (filter (\<lambda>r. ip_address r = PStr (inet_in w (PStr ip))) (ip_records w)) then lit ''duplicate'' else lit ''new'')
            ip geo (dict_get geo (lit ''country_code'') (PStr [])) fl),
      emit (Execute (SelectCount ip)) (emit (HttpGet (geo_url (ipapi_token w) ip)) w))"
  using assms by (simp add: resolve_ip_def fetch_geo_def is_ip_in_database_def)

lemma fallback_country_code: "dict_get
           [(lit ''ip'', PStr ip), (lit ''asn'', PStr (lit ''Unknown'')),
            (lit ''as_name'', PStr (lit ''Unknown'')), (lit ''as_domain'', PStr (lit ''Unknown'')),
            (lit ''country_code'', PStr []), (lit ''country'', PStr (lit ''Unknown'')),
            (lit ''continent_code'', PStr []), (lit ''continent'', PStr (lit ''Unknown''))] (lit ''country_code'') d = PStr []"
  by (simp add: dict_get_def lit_def)

lemma flag_empty: "get_country_flag uc (PStr []) = Inr globe"
  by (simp add: get_country_flag_def)

lemma resolve_ip_no_data:
  assumes "requests_get w (geo_url (ipapi_token w) ip) = NoReply
         \<or> requests_get w (geo_url (ipapi_token w) ip) = Reply code body None"
    and "db_connects w" and "db_executes w (SelectCount ip)"
  shows "resolve_ip w ip =
     (Inr (PDict
        [(lit ''status'', PStr (if 0 < length (filter (\<lambda>r. ip_address r = PStr (inet_in w (PStr ip))) (ip_records w))
                                then lit ''duplicate'' else lit ''new'')),
         (lit ''ip'', PStr ip),
         (lit ''location'', PDict
            [(lit ''country'', PStr (lit ''Unknown'')),
             (lit ''country_code'', PStr []),
             (lit ''country_flag'', PStr globe),
             (lit ''continent'', PStr (lit ''Unknown'')),
             (lit ''continent_code'', PStr []),
             (lit ''asn'', PStr (lit ''Unknown'')),
             (lit ''as_name'', PStr (lit ''Unknown'')),
             (lit ''as_domain'', PStr (lit ''Unknown''))]),
         (lit ''vpn_detected'', PBool False),
         (lit ''vpn_type'', PNone)]),
      emit (Execute (SelectCount ip)) (emit (HttpGet (geo_url (ipapi_token w) ip)) w))"
proof -
  have f: "fetch_geo w ip = (fallback_geo ip, emit (HttpGet (geo_url (ipapi_token w) ip)) w)"
    using assms(1) by (auto simp: fetch_geo_def)
  have g: "ip_info_result st ip
            [(lit ''ip'', PStr ip), (lit ''asn'', PStr (lit ''Unknown'')),
            (lit ''as_name'', PStr (lit ''Unknown'')), (lit ''as_domain'', PStr (lit ''Unknown'')),
            (lit ''country_code'', PStr []), (lit ''country'', PStr (lit ''Unknown'')),
            (lit ''continent_code'', PStr []), (lit ''continent'', PStr (lit ''Unknown''))] (PStr []) globe
      = PDict
        [(lit ''status'', PStr st),
         (lit ''ip'', PStr ip),
         (lit ''location'', PDict
            [(lit ''country'', PStr (lit ''Unknown'')),
             (lit ''country_code'', PStr []),
             (lit ''country_flag'', PStr globe),
             (lit ''continent'', PStr (lit ''Unknown'')),
             (lit ''continent_code'', PStr []),
             (lit ''asn'', PStr (lit ''Unknown'')),
             (lit ''as_name'', PStr (lit ''Unknown'')),
             (lit ''as_domain'', PStr (lit ''Unknown''))]),
         (lit ''vpn_detected'', PBool False),
         (lit ''vpn_type'', PNone)]" for st
    by (simp add: ip_info_result_def dict_get_def lit_def)
  show ?thesis
    using assms(2,3)
    by (simp add: resolve_ip_def f is_ip_in_database_def fallback_geo_def fallback_country_code flag_empty Let_def g)
qed

lemma info_google:
  assumes "requests_get w = requests_get sample_world" "db_connects w" "db_executes w (SelectCount (lit ''8.8.8.8''))"
    "ip_records w = []" "ipapi_token w = None"
  shows "get_ip_info w (Some (lit ''8.8.8.8'')) =
     (Inr google_record,
      emit (Execute (SelectCount (lit ''8.8.8.8''))) (emit (HttpGet (geo_url None (lit ''8.8.8.8''))) w))"
proof -
  have r: "requests_get w (geo_url (ipapi_token w) (lit ''8.8.8.8'')) = Reply 200 [] (Some (PDict google_geo))"
    using assms(1) by simp
  have fl: "get_country_flag (unicode_upper w) (dict_get google_geo (lit ''country_code'') (PStr [])) = Inr [127482, 127480]"
    by (simp add: google_country_code flag_US)
  show ?thesis
    using resolve_ip_reply [OF r assms(2,3) fl] assms(4,5)
    by (simp add: get_ip_info_custom [OF validate_8888] google_record_def google_country_code)
qed

lemma invalid_fields:
  "subscript (invalid_ip_result c) (lit ''ip'') = Inr (PStr c)"
  "subscript (invalid_ip_result c) (lit ''status'') = Inl KeyError"
  "subscript (invalid_ip_result c) (lit ''location'') = Inl KeyError"
  by (simp_all add: invalid_ip_result_def lit_def)

lemma not_an_ip: "\<not> validate_ip (lit ''not-an-ip'')"
  by (simp add: validate_ip_eval)

subsection \<open>Facts about the store\<close>

lemma legacy_fields:
  "subscript (legacy_record ip c) (lit ''ip'') = Inr (PStr ip)"
  "subscript (legacy_record ip c) (lit ''status'') = Inr (PStr (lit ''new''))"
  "subscript (legacy_record ip c) (lit ''vpn_detected'') = Inr (PBool False)"
  "subscript (legacy_record ip c) (lit ''vpn_type'') = Inr PNone"
  "and_then (subscript (legacy_record ip c) (lit ''location'')) (\<lambda>l. subscript l (lit ''country'')) = Inr (PStr c)"
  "and_then (subscript (legacy_record ip c) (lit ''location'')) (\<lambda>l. subscript l (lit ''region'')) = Inr (PStr (lit ''California''))"
  "and_then (subscript (legacy_record ip c) (lit ''location'')) (\<lambda>l. subscript l (lit ''city'')) = Inr (PStr (lit ''Mountain View''))"
  "and_then (subscript (legacy_record ip c) (lit ''location'')) (\<lambda>l. subscript l (lit ''org'')) = Inr (PStr (lit ''AS15169 Google LLC''))"
  by (simp_all add: legacy_record_def legacy_entries_def and_then_def lit_def)

lemma insert_values_legacy: "insert_values t (legacy_record ip c) = Inr (legacy_row t ip c)"
  unfolding insert_values_def legacy_fields by (simp add: and_then_def legacy_row_def)

lemma and_then_Inr: "and_then m f = Inr y \<Longrightarrow> \<exists>x. m = Inr x \<and> f x = Inr y"
  by (cases m) (simp_all add: and_then_def)

lemma insert_values_fields:
  assumes "insert_values t d = Inr r"
  shows "raw_geo_data r = d" and "timestamp r = t"
    and "subscript d (lit ''ip'') = Inr (ip_address r)"
    and "and_then (subscript d (lit ''location'')) (\<lambda>l. subscript l (lit ''country'')) = Inr (country r)"
proof -
  from assms obtain a where a: "subscript d (lit ''ip'') = Inr a" and
    1: "and_then (and_then (subscript d (lit ''location'')) (\<lambda>l. subscript l (lit ''country''))) (\<lambda>v_country.
     and_then (and_then (subscript d (lit ''location'')) (\<lambda>l. subscript l (lit ''region''))) (\<lambda>v_region.
     and_then (and_then (subscript d (lit ''location'')) (\<lambda>l. subscript l (lit ''city''))) (\<lambda>v_city.
     and_then (and_then (subscript d (lit ''location'')) (\<lambda>l. subscript l (lit ''org''))) (\<lambda>v_org.
     and_then (subscript d (lit ''vpn_detected'')) (\<lambda>v_vpn.
     and_then (subscript d (lit ''vpn_type'')) (\<lambda>v_type.
       Inr \<lparr>ip_address = a, country = v_country, region = v_region, city = v_city,
            org = v_org, vpn_detected = v_vpn, vpn_type = v_type, raw_geo_data = d,
            timestamp = t\<rparr>)))))) = Inr r"
    unfolding insert_values_def by (blast dest: and_then_Inr)
  from and_then_Inr [OF 1] obtain b where b: "and_then (subscript d (lit ''location'')) (\<lambda>l. subscript l (lit ''country'')) = Inr b"
    and 2: "and_then (and_then (subscript d (lit ''location'')) (\<lambda>l. subscript l (lit ''region''))) (\<lambda>v_region.
     and_then (and_then (subscript d (lit ''location'')) (\<lambda>l. subscript l (lit ''city''))) (\<lambda>v_city.
     and_then (and_then (subscript d (lit ''location'')) (\<lambda>l. subscript l (lit ''org''))) (\<lambda>v_org.
     and_then (subscript d (lit ''vpn_detected'')) (\<lambda>v_vpn.
     and_then (subscript d (lit ''vpn_type'')) (\<lambda>v_type.
       Inr \<lparr>ip_address = a, country = b, region = v_region, city = v_city,
            org = v_org, vpn_detected = v_vpn, vpn_type = v_type, raw_geo_data = d,
            timestamp = t\<rparr>))))) = Inr r"
    by blast
  from and_then_Inr [OF 2] obtain c where 3: "and_then (and_then (subscript d (lit ''location'')) (\<lambda>l. subscript l (lit ''city''))) (\<lambda>v_city.
     and_then (and_then (subscript d (lit ''location'')) (\<lambda>l. subscript l (lit ''org''))) (\<lambda>v_org.
     and_then (subscript d (lit ''vpn_detected'')) (\<lambda>v_vpn.
     and_then (subscript d (lit ''vpn_type'')) (\<lambda>v_type.
       Inr \<lparr>ip_address = a, country = b, region = c, city = v_city,
            org = v_org, vpn_detected = v_vpn, vpn_type = v_type, raw_geo_data = d,
            timestamp = t\<rparr>)))) = Inr r"
    by blast
  from and_then_Inr [OF 3] obtain e where 4: "and_then (and_then (subscript d (lit ''location'')) (\<lambda>l. subscript l (lit ''org''))) (\<lambda>v_org.
     and_then (subscript d (lit ''vpn_detected'')) (\<lambda>v_vpn.
     and_then (subscript d (lit ''vpn_type'')) (\<lambda>v_type.
       Inr \<lparr>ip_address = a, country = b, region = c, city = e,
            org = v_org, vpn_detected = v_vpn, vpn_type = v_type, raw_geo_data = d,
            timestamp = t\<rparr>))) = Inr r"
    by blast
  from and_then_Inr [OF 4] obtain f where 5: "and_then (subscript d (lit ''vpn_detected'')) (\<lambda>v_vpn.
     and_then (subscript d (lit ''vpn_type'')) (\<lambda>v_type.
       Inr \<lparr>ip_address = a, country = b, region = c, city = e,
            org = f, vpn_detected = v_vpn, vpn_type = v_type, raw_geo_data = d,
            timestamp = t\<rparr>)) = Inr r"
    by blast
  from and_then_Inr [OF 5] obtain g where 6: "and_then (subscript d (lit ''vpn_type'')) (\<lambda>v_type.
       Inr \<lparr>ip_address = a, country = b, region = c, city = e,
            org = f, vpn_detected = g, vpn_type = v_type, raw_geo_data = d,
            timestamp = t\<rparr>) = Inr r"
    by blast
  from and_then_Inr [OF 6] obtain h where r: "r = \<lparr>ip_address = a, country = b, region = c, city = e,
            org = f, vpn_detected = g, vpn_type = h, raw_geo_data = d, timestamp = t\<rparr>"
    by auto
  show "raw_geo_data r = d" "timestamp r = t" "subscript d (lit ''ip'') = Inr (ip_address r)"
    "and_then (subscript d (lit ''location'')) (\<lambda>l. subscript l (lit ''country'')) = Inr (country r)"
    using a b by (simp_all add: r)
qed

lemma upsert_mem: "r \<in> set (upsert r rs)"
  by (auto simp: upsert_def list_ex_iff)

lemma save_True:
  assumes "save_ip_to_database w d = (Inr True, w1)"
  shows "\<exists>r. insert_values (current_timestamp w) d = Inr r \<and> db_connects w \<and> db_executes w (InsertOnConflict r)
           \<and> w1 = emit Commit ((emit (Execute (InsertOnConflict r)) w)\<lparr>ip_records := upsert (as_stored w r) (ip_records w)\<rparr>)"
  using assms
  by (auto simp: save_ip_to_database_def Let_def split: sum.splits if_splits)

lemma save_not_True:
  assumes "fst (save_ip_to_database w d) \<noteq> Inr True"
  shows "ip_records (snd (save_ip_to_database w d)) = ip_records w"
  using assms
  by (auto simp: save_ip_to_database_def Let_def split: sum.splits if_splits)

lemma save_ok:
  assumes "insert_values (current_timestamp w) d = Inr r" "db_connects w" "db_executes w (InsertOnConflict r)"
  shows "save_ip_to_database w d = (Inr True, emit Commit ((emit (Execute (InsertOnConflict r)) w)\<lparr>ip_records := upsert (as_stored w r) (ip_records w)\<rparr>))"
proof -
  from insert_values_fields(3) [OF assms(1)] show ?thesis
    using assms by (simp add: save_ip_to_database_def Let_def)
qed

lemma legacy_save:
  assumes "db_connects w" "db_executes w (InsertOnConflict (legacy_row (current_timestamp w) ip c))"
  shows "save_ip_to_database w (legacy_record ip c) =
     (Inr True, emit Commit ((emit (Execute (InsertOnConflict (legacy_row (current_timestamp w) ip c))) w)
        \<lparr>ip_records := upsert (as_stored w (legacy_row (current_timestamp w) ip c)) (ip_records w)\<rparr>))"
  by (rule save_ok) (use assms in \<open>simp_all add: insert_values_legacy\<close>)


lemma upsert_keys: "map ip_address (upsert r rs) =
   (if ip_address r \<in> set (map ip_address rs) then map ip_address rs else map ip_address rs @ [ip_address r])"
proof -
  have mem: "list_ex (\<lambda>x. ip_address x = ip_address r) rs \<longleftrightarrow> ip_address r \<in> set (map ip_address rs)"
    by (induction rs) auto
  have same: "map ip_address (map (\<lambda>x. if ip_address x = ip_address r then r else x) rs) = map ip_address rs"
    by (induction rs) auto
  show ?thesis
    unfolding upsert_def using mem same by simp
qed

lemma upsert_distinct: "distinct (map ip_address rs) \<Longrightarrow> distinct (map ip_address (upsert r rs))"
  by (simp add: upsert_keys)

lemma filter_key_distinct:
  "distinct (map ip_address rs) \<Longrightarrow> x \<in> set rs \<Longrightarrow> filter (\<lambda>y. ip_address y = ip_address x) rs = [x]"
proof (induction rs)
  case Nil
  then show ?case by simp
next
  case (Cons a rs)
  show ?case
  proof (cases "x = a")
    case True
    have "filter (\<lambda>y. ip_address y = ip_address a) rs = []"
      using Cons.prems(1) by (auto simp: filter_empty_conv image_iff)
    with True show ?thesis by simp
  next
    case False
    with Cons.prems have "x \<in> set rs" "ip_address a \<noteq> ip_address x" by auto
    with Cons show ?thesis by simp
  qed
qed

lemma upsert_filter:
  "distinct (map ip_address rs) \<Longrightarrow> filter (\<lambda>y. ip_address y = ip_address r) (upsert r rs) = [r]"
  using filter_key_distinct [OF upsert_distinct upsert_mem] by blast

lemma distinct_at_most_one:
  "distinct (map f rs) \<Longrightarrow> length (filter (\<lambda>y. f y = k) rs) \<le> 1"
  by (induction rs) (auto simp: filter_empty_conv image_iff)

lemma save_distinct:
  assumes "distinct (map ip_address (ip_records w))"
  shows "distinct (map ip_address (ip_records (snd (save_ip_to_database w d))))"
proof (cases "fst (save_ip_to_database w d) = Inr True")
  case True
  then obtain w1 where "save_ip_to_database w d = (Inr True, w1)"
    by (cases "save_ip_to_database w d") simp
  from save_True [OF this] this assms show ?thesis
    by (auto simp: upsert_distinct)
next
  case False
  from save_not_True [OF this] assms show ?thesis by simp
qed

lemma save_all_distinct:
  "distinct (map ip_address (ip_records w)) \<Longrightarrow> distinct (map ip_address (ip_records (save_all w calls)))"
proof (induction calls arbitrary: w)
  case Nil
  then show ?case by simp
next
  case (Cons c calls)
  obtain t d where c: "c = (t, d)" by (cases c)
  have "distinct (map ip_address (ip_records (snd (save_ip_to_database (w\<lparr>current_timestamp := t\<rparr>) d))))"
    by (rule save_distinct) (use Cons.prems in simp)
  from Cons.IH [OF this] show ?case by (simp add: c)
qed

lemma as_stored_fields [simp]:
  "ip_address (as_stored w r) = PStr (inet_in w (ip_address r))"
  "country (as_stored w r) = country r"
  "raw_geo_data (as_stored w r) = raw_geo_data r"
  "timestamp (as_stored w r) = timestamp r"
  by (simp_all add: as_stored_def)

lemma as_stored_world [simp]:
  "as_stored (emit e w) r = as_stored w r"
  "as_stored (w\<lparr>current_timestamp := t\<rparr>) r = as_stored w r"
  "as_stored (w\<lparr>ip_records := rs\<rparr>) r = as_stored w r"
  by (simp_all add: as_stored_def)

lemma inet_ipv4_samples:
  "inet_ipv4 (PStr (lit ''8.8.8.8'')) = lit ''8.8.8.8''"
  "inet_ipv4 (PStr (lit ''008.8.8.8'')) = lit ''8.8.8.8''"
  "inet_ipv4 (PStr (lit ''1.2.3.4'')) = lit ''1.2.3.4''"
  "inet_ipv4 (PStr (lit ''01.2.3.4'')) = lit ''1.2.3.4''"
  by (simp_all add: inet_ipv4_def octet_str_def is_digit_def decimal_value_def octet_text_def lit_def)


lemma upsert_other:
  "k \<noteq> ip_address r \<Longrightarrow> filter (\<lambda>x. ip_address x = k) (upsert r rs) = filter (\<lambda>x. ip_address x = k) rs"
proof -
  assume k: "k \<noteq> ip_address r"
  have "filter (\<lambda>x. ip_address x = k) (map (\<lambda>x. if ip_address x = ip_address r then r else x) rs)
      = filter (\<lambda>x. ip_address x = k) rs"
    using k by (induction rs) auto
  then show ?thesis using k by (simp add: upsert_def)
qed

subsection \<open>Facts about resolution\<close>

lemma get_user_ip_frame:
  assumes "get_user_ip w = (ip, w0)"
  shows "ip_records w0 = ip_records w" "ipapi_token w0 = ipapi_token w" "inet_in w0 = inet_in w"
  using assms
  by (auto simp: get_user_ip_def Let_def split: if_splits http_reply.splits)

lemma subject_ip_frame:
  assumes "subject_ip w custom_ip = (r, w0)"
  shows "ip_records w0 = ip_records w" "ipapi_token w0 = ipapi_token w" "inet_in w0 = inet_in w"
  using assms get_user_ip_frame
  by (auto simp: subject_ip_def split: option.splits if_splits prod.splits)

lemma resolve_ip_Inr:
  assumes "resolve_ip w ip = (Inr d, w')"
  shows "subscript d (lit ''status'') =
           Inr (PStr (if 0 < length (filter (\<lambda>r. ip_address r = PStr (inet_in w (PStr ip))) (ip_records w))
                      then lit ''duplicate'' else lit ''new''))"
    and "w' = emit (Execute (SelectCount ip)) (emit (HttpGet (geo_url (ipapi_token w) ip)) w)"
proof -
  obtain g where f: "fetch_geo w ip = (g, emit (HttpGet (geo_url (ipapi_token w) ip)) w)"
    by (simp add: fetch_geo_def Let_def)
  let ?w1 = "emit (HttpGet (geo_url (ipapi_token w) ip)) w"
  obtain r w2 where i: "is_ip_in_database ?w1 ip = (r, w2)" by (cases "is_ip_in_database ?w1 ip")
  from assms f i obtain found where r: "r = Inr found"
    by (cases r) (simp_all add: resolve_ip_def)
  from i r have found: "found = (0 < length (filter (\<lambda>r. ip_address r = PStr (inet_in w (PStr ip))) (ip_records w)))"
    and w2: "w2 = emit (Execute (SelectCount ip)) ?w1"
    by (auto simp: is_ip_in_database_def Let_def split: if_splits)
  from assms f i r obtain geo where g: "g = PDict geo"
    by (cases g) (simp_all add: resolve_ip_def)
  from assms f i r g obtain fl where
    "get_country_flag (unicode_upper w) (dict_get geo (lit ''country_code'') (PStr [])) = Inr fl"
    by (cases "get_country_flag (unicode_upper w) (dict_get geo (lit ''country_code'') (PStr []))")
       (simp_all add: resolve_ip_def Let_def)
  with assms f i r g have d: "d = ip_info_result (if found then lit ''duplicate'' else lit ''new'') ip geo
       (dict_get geo (lit ''country_code'') (PStr [])) fl" and w': "w' = w2"
    by (simp_all add: resolve_ip_def Let_def)
  show "subscript d (lit ''status'') =
           Inr (PStr (if 0 < length (filter (\<lambda>r. ip_address r = PStr (inet_in w (PStr ip))) (ip_records w))
                      then lit ''duplicate'' else lit ''new''))"
    unfolding d result_status found by simp
  show "w' = emit (Execute (SelectCount ip)) (emit (HttpGet (geo_url (ipapi_token w) ip)) w)"
    using w' w2 by simp
qed




subsection \<open>What the validator accepts\<close>

text \<open>
  The pattern accepts exactly the strings made of four decimal octets separated by dots,
  and those strings followed by one newline.
\<close>

lemma list_shape:
  obtains "s = []" | x where "s = [x]" | x y where "s = [x, y]" | x y z t where "s = x # y # z # t"
  by (metis list.exhaust)

lemma matchk_octet_take:
  "matchk octet_re s k \<longleftrightarrow>
     (1 \<le> length s \<and> octet_str (take 1 s) \<and> k (drop 1 s))
   \<or> (2 \<le> length s \<and> octet_str (take 2 s) \<and> k (drop 2 s))
   \<or> (3 \<le> length s \<and> octet_str (take 3 s) \<and> k (drop 3 s))"
proof (cases s rule: list_shape)
  case 1
  then show ?thesis by (simp add: octet_re_def digit_cls_def)
next
  case (2 x)
  then show ?thesis
    by (auto simp: octet_re_def digit_cls_def octet_str_def is_digit_def decimal_value_def)
next
  case (3 x y)
  then show ?thesis
    by (auto simp: octet_re_def digit_cls_def octet_str_def is_digit_def decimal_value_def)
next
  case (4 x y z t)
  then show ?thesis
    by (auto simp: octet_re_def digit_cls_def octet_str_def is_digit_def decimal_value_def)
qed

lemma matchk_octet:
  "matchk octet_re s k \<longleftrightarrow> (\<exists>a t. s = a @ t \<and> octet_str a \<and> k t)"
proof
  assume "matchk octet_re s k"
  then obtain n where "n \<le> length s" "octet_str (take n s)" "k (drop n s)"
    unfolding matchk_octet_take by fastforce
  moreover have "s = take n s @ drop n s" by simp
  ultimately show "\<exists>a t. s = a @ t \<and> octet_str a \<and> k t" by blast
next
  assume "\<exists>a t. s = a @ t \<and> octet_str a \<and> k t"
  then obtain a t where s: "s = a @ t" and a: "octet_str a" and k: "k t" by blast
  from a have "0 < length a" "length a \<le> 3" by (simp_all add: octet_str_def)
  then have "length a = 1 \<or> length a = 2 \<or> length a = 3" by arith
  moreover have "take (length a) s = a" "drop (length a) s = t" "length a \<le> length s"
    by (simp_all add: s)
  ultimately show "matchk octet_re s k"
    unfolding matchk_octet_take using a k by metis
qed

lemma matchk_Chr: "matchk (Chr c) s k \<longleftrightarrow> (\<exists>u. s = c # u \<and> k u)"
  by (cases s) auto

lemma matchk_octet_dot:
  "matchk (Cat octet_re (Chr 46)) s k \<longleftrightarrow> (\<exists>a u. s = a @ 46 # u \<and> octet_str a \<and> k u)"
  unfolding matchk.simps(4) matchk_octet matchk_Chr by blast

lemma validate_ip_unfold:
  "validate_ip s =
     matchk (Cat octet_re (Chr 46)) s (\<lambda>t1.
     matchk (Cat octet_re (Chr 46)) t1 (\<lambda>t2.
     matchk (Cat octet_re (Chr 46)) t2 (\<lambda>t3.
     matchk octet_re t3 (\<lambda>t4. t4 = [] \<or> t4 = [10]))))"
  by (simp add: validate_ip_def re_match_def ip_pattern_def rep_3)

lemma validate_ip_nested:
  "validate_ip s \<longleftrightarrow>
     (\<exists>a u. s = a @ 46 # u \<and> octet_str a \<and>
       (\<exists>b v. u = b @ 46 # v \<and> octet_str b \<and>
         (\<exists>c x. v = c @ 46 # x \<and> octet_str c \<and>
           (\<exists>d t. x = d @ t \<and> octet_str d \<and> (t = [] \<or> t = [10])))))"
  unfolding validate_ip_unfold matchk_octet_dot matchk_octet by (rule refl)

lemma validate_ip_iff:
  "validate_ip s \<longleftrightarrow>
     (\<exists>a b c d. octet_str a \<and> octet_str b \<and> octet_str c \<and> octet_str d
        \<and> (s = a @ 46 # b @ 46 # c @ 46 # d \<or> s = a @ 46 # b @ 46 # c @ 46 # d @ [10]))"
proof
  assume "validate_ip s"
  then obtain a u b v c x d t where "s = a @ 46 # u" "octet_str a" "u = b @ 46 # v" "octet_str b"
    "v = c @ 46 # x" "octet_str c" "x = d @ t" "octet_str d" "t = [] \<or> t = [10]"
    unfolding validate_ip_nested by blast
  then have "octet_str a \<and> octet_str b \<and> octet_str c \<and> octet_str d
        \<and> (s = a @ 46 # b @ 46 # c @ 46 # d \<or> s = a @ 46 # b @ 46 # c @ 46 # d @ [10])"
    by auto
  then show "\<exists>a b c d. octet_str a \<and> octet_str b \<and> octet_str c \<and> octet_str d
        \<and> (s = a @ 46 # b @ 46 # c @ 46 # d \<or> s = a @ 46 # b @ 46 # c @ 46 # d @ [10])"
    by blast
next
  assume "\<exists>a b c d. octet_str a \<and> octet_str b \<and> octet_str c \<and> octet_str d
        \<and> (s = a @ 46 # b @ 46 # c @ 46 # d \<or> s = a @ 46 # b @ 46 # c @ 46 # d @ [10])"
  then obtain a b c d t where o: "octet_str a" "octet_str b" "octet_str c" "octet_str d"
    and s: "s = a @ 46 # b @ 46 # c @ 46 # d @ t" and t: "t = [] \<or> t = [10]"
    by auto
  have 4: "\<exists>d' t'. d @ t = d' @ t' \<and> octet_str d' \<and> (t' = [] \<or> t' = [10])"
    using o(4) t by blast
  have 3: "\<exists>c' x. c @ 46 # d @ t = c' @ 46 # x \<and> octet_str c' \<and>
           (\<exists>d' t'. x = d' @ t' \<and> octet_str d' \<and> (t' = [] \<or> t' = [10]))"
    using o(3) 4 by blast
  have 2: "\<exists>b' v. b @ 46 # c @ 46 # d @ t = b' @ 46 # v \<and> octet_str b' \<and>
         (\<exists>c' x. v = c' @ 46 # x \<and> octet_str c' \<and>
           (\<exists>d' t'. x = d' @ t' \<and> octet_str d' \<and> (t' = [] \<or> t' = [10])))"
    using o(2) 3 by blast
  show "validate_ip s"
    unfolding validate_ip_nested s using o(1) 2 by blast
qed

lemma validate_ip_accepts:
  assumes "octet_str a" "octet_str b" "octet_str c" "octet_str d"
  shows "validate_ip (a @ 46 # b @ 46 # c @ 46 # d)"
  using assms validate_ip_iff by blast

section \<open>Records of the pipeline cannot be saved\<close>

text \<open>
  C2. For every dict a successful \<open>get_ip_info\<close> call returns (one without the \<open>error\<close> key),
  the keys \<open>region\<close>, \<open>city\<close> and \<open>org\<close> are missing from its \<open>location\<close>, so
  \<open>save_ip_to_database\<close>, in any state of a reachable database, rolls back and returns
  \<open>False\<close>, and the table is what it was.
\<close>

theorem pipeline_record_never_saved:
  assumes "get_ip_info w custom_ip = (Inr ip_data, w1)"
    and "subscript ip_data (lit ''error'') = Inl KeyError"
    and "db_connects w2"
  shows "and_then (subscript ip_data (lit ''location'')) (\<lambda>l. subscript l (lit ''region'')) = Inl KeyError
       \<and> and_then (subscript ip_data (lit ''location'')) (\<lambda>l. subscript l (lit ''city'')) = Inl KeyError
       \<and> and_then (subscript ip_data (lit ''location'')) (\<lambda>l. subscript l (lit ''org'')) = Inl KeyError
       \<and> save_ip_to_database w2 ip_data = (Inr False, emit Rollback w2)
       \<and> ip_records (snd (save_ip_to_database w2 ip_data)) = ip_records w2"
proof -
  from get_ip_info_shape [OF assms(1)] assms(2)
  obtain st ip geo cc fl where d: "ip_data = ip_info_result st ip geo cc fl"
    by (auto simp: invalid_has_error)
  show ?thesis
    unfolding d by (simp add: result_no_region result_no_city result_no_org save_result [OF assms(3)] emit_def)
qed

theorem pipeline_record_never_saved_witness:
  "get_ip_info sample_world (Some (lit ''8.8.8.8'')) =
     (Inr google_record,
      emit (Execute (SelectCount (lit ''8.8.8.8''))) (emit (HttpGet (geo_url None (lit ''8.8.8.8''))) sample_world))
   \<and> subscript google_record (lit ''error'') = Inl KeyError
   \<and> db_connects sample_world
   \<and> save_ip_to_database sample_world google_record = (Inr False, emit Rollback sample_world)
   \<and> ip_records (snd (save_ip_to_database sample_world google_record)) = ip_records sample_world"
proof -
  have a: "subscript google_record (lit ''error'') = Inl KeyError"
    by (simp add: google_record_def result_no_error)
  have b: "db_connects sample_world" by simp
  from pipeline_record_never_saved [OF info_8888 a b] info_8888 a b show ?thesis by simp
qed

section \<open>The round trip of resolve and save\<close>

text \<open>
  C1. At a fresh address the round trip does not reach \<open>duplicate\<close>: in the sample
  environment (empty table, database up) \<open>get_ip_info\<close> on 8.8.8.8 reports \<open>new\<close>, saving the
  returned dict rolls back and returns \<open>False\<close>, and \<open>get_ip_info\<close> afterwards returns the same
  dict, status \<open>new\<close> again; \<open>/api/save-ip\<close> answers "Failed to save IP to database" and
  the table stays empty.
\<close>

theorem round_trip_stays_new:
  "get_ip_info sample_world (Some (lit ''8.8.8.8'')) =
     (Inr google_record,
      emit (Execute (SelectCount (lit ''8.8.8.8''))) (emit (HttpGet (geo_url None (lit ''8.8.8.8''))) sample_world))
   \<and> subscript google_record (lit ''status'') = Inr (PStr (lit ''new''))
   \<and> save_ip_to_database
        (emit (Execute (SelectCount (lit ''8.8.8.8''))) (emit (HttpGet (geo_url None (lit ''8.8.8.8''))) sample_world))
        google_record
      = (Inr False,
         emit Rollback (emit (Execute (SelectCount (lit ''8.8.8.8''))) (emit (HttpGet (geo_url None (lit ''8.8.8.8''))) sample_world)))
   \<and> fst (get_ip_info
        (emit Rollback (emit (Execute (SelectCount (lit ''8.8.8.8''))) (emit (HttpGet (geo_url None (lit ''8.8.8.8''))) sample_world)))
        (Some (lit ''8.8.8.8'')))
      = Inr google_record
   \<and> fst (api_save_ip sample_world (Some (PDict [(lit ''ip_address'', PStr (lit ''8.8.8.8''))]))) = SaveFailed
   \<and> ip_records (snd (api_save_ip sample_world (Some (PDict [(lit ''ip_address'', PStr (lit ''8.8.8.8''))])))) = []"
proof -
  let ?w1 = "emit (Execute (SelectCount (lit ''8.8.8.8''))) (emit (HttpGet (geo_url None (lit ''8.8.8.8''))) sample_world)"
  have a: "get_ip_info sample_world (Some (lit ''8.8.8.8'')) = (Inr google_record, ?w1)"
    by (rule info_google) simp_all
  have b: "subscript google_record (lit ''status'') = Inr (PStr (lit ''new''))"
    by (simp add: google_record_def result_status)
  have c: "save_ip_to_database ?w1 google_record = (Inr False, emit Rollback ?w1)"
    unfolding google_record_def by (rule save_result) simp
  have d: "fst (get_ip_info (emit Rollback ?w1) (Some (lit ''8.8.8.8''))) = Inr google_record"
    by (subst info_google) simp_all
  have s: "py_strip (lit ''8.8.8.8'') = lit ''8.8.8.8''"
    by (simp add: py_strip_def py_isspace_def lit_def)
  have g: "google_record = PDict
     [(lit ''status'', PStr (lit ''new'')),
      (lit ''ip'', dict_get google_geo (lit ''ip'') (PStr (lit ''8.8.8.8''))),
      (lit ''location'', PDict
               [(lit ''country'', dict_get google_geo (lit ''country'') (PStr (lit ''Unknown''))),
                (lit ''country_code'', PStr (lit ''US'')),
                (lit ''country_flag'', PStr [127482, 127480]),
                (lit ''continent'', dict_get google_geo (lit ''continent'') (PStr (lit ''Unknown''))),
                (lit ''continent_code'', dict_get google_geo (lit ''continent_code'') (PStr [])),
                (lit ''asn'', dict_get google_geo (lit ''asn'') (PStr (lit ''Unknown''))),
                (lit ''as_name'', dict_get google_geo (lit ''as_name'') (PStr (lit ''Unknown''))),
                (lit ''as_domain'', dict_get google_geo (lit ''as_domain'') (PStr (lit ''Unknown'')))]),
            (lit ''vpn_detected'', PBool False),
            (lit ''vpn_type'', PNone)]" (is "_ = PDict ?kvs")
    by (simp add: google_record_def ip_info_result_def)
  have p: "api_save_ip_persist ?w1 ?kvs = (SaveFailed, emit Rollback ?w1)"
    using c unfolding g
    by (simp add: api_save_ip_persist_def has_key_def lit_def)
  have e: "api_save_ip sample_world (Some (PDict [(lit ''ip_address'', PStr (lit ''8.8.8.8''))])) = (SaveFailed, emit Rollback ?w1)"
    using a p unfolding g
    by (simp add: api_save_ip_def dict_get_def s lit_nonempty_8888 Let_def)
  from a b c d e show ?thesis by simp
qed

section \<open>The validator on a trailing newline\<close>

text \<open>
  C3. \<open>validate_ip\<close> accepts the string 1.2.3.4 followed by a newline, whose fourth
  dot-separated part is not a decimal octet, and \<open>get_ip_info\<close> takes it as the subject
  address.
\<close>

theorem validate_ip_trailing_newline:
  "validate_ip (lit ''1.2.3.4'' @ [10])
   \<and> \<not> octet_str (lit ''4'' @ [10])
   \<and> fst (subject_ip sample_world (Some (lit ''1.2.3.4'' @ [10]))) = Inr (lit ''1.2.3.4'' @ [10])"
proof -
  have v: "validate_ip (lit ''1.2.3.4'' @ [10])"
    by (simp add: validate_ip_eval)
  have "\<not> octet_str (lit ''4'' @ [10])"
    by (simp add: octet_str_def is_digit_def lit_def)
  moreover have "fst (subject_ip sample_world (Some (lit ''1.2.3.4'' @ [10]))) = Inr (lit ''1.2.3.4'' @ [10])"
    using v by (simp add: subject_ip_def)
  ultimately show ?thesis using v by simp
qed

section \<open>Invalid input\<close>

text \<open>
  C4. For every non-empty custom address \<open>c\<close>: when the validator refuses \<open>c\<close>, \<open>get_ip_info\<close>
  returns at once the dict with the keys \<open>error\<close> and \<open>ip\<close>, the latter holding exactly \<open>c\<close>
  (and no \<open>status\<close> or \<open>location\<close>), touching nothing; when the validator accepts \<open>c\<close>, no dict
  that \<open>get_ip_info\<close> returns has the key \<open>error\<close>.
\<close>

theorem invalid_input_error:
  assumes "c \<noteq> []"
  shows "(\<not> validate_ip c \<longrightarrow>
            get_ip_info w (Some c) = (Inr (invalid_ip_result c), w)
          \<and> subscript (invalid_ip_result c) (lit ''error'') = Inr (PStr (lit ''Invalid IP address format''))
          \<and> subscript (invalid_ip_result c) (lit ''ip'') = Inr (PStr c)
          \<and> subscript (invalid_ip_result c) (lit ''status'') = Inl KeyError
          \<and> subscript (invalid_ip_result c) (lit ''location'') = Inl KeyError)
       \<and> (validate_ip c \<longrightarrow>
            (\<forall>d. fst (get_ip_info w (Some c)) = Inr d \<longrightarrow> subscript d (lit ''error'') = Inl KeyError))"
proof (intro conjI impI allI)
  fix d
  assume v: "validate_ip c" and r: "fst (get_ip_info w (Some c)) = Inr d"
  obtain w' where "resolve_ip w c = (Inr d, w')"
    using r get_ip_info_custom [OF v, of w] by (cases "resolve_ip w c") simp
  from resolve_ip_shape [OF this] show "subscript d (lit ''error'') = Inl KeyError"
    by (auto simp: result_no_error)
qed (use assms in \<open>simp_all add: get_ip_info_invalid invalid_has_error invalid_fields\<close>)

theorem invalid_input_error_witness:
  "lit ''not-an-ip'' \<noteq> [] \<and> \<not> validate_ip (lit ''not-an-ip'')
   \<and> get_ip_info sample_world (Some (lit ''not-an-ip'')) = (Inr (invalid_ip_result (lit ''not-an-ip'')), sample_world)
   \<and> subscript (invalid_ip_result (lit ''not-an-ip'')) (lit ''ip'') = Inr (PStr (lit ''not-an-ip''))
   \<and> lit ''8.8.8.8'' \<noteq> [] \<and> validate_ip (lit ''8.8.8.8'')
   \<and> fst (get_ip_info sample_world (Some (lit ''8.8.8.8''))) = Inr google_record
   \<and> subscript google_record (lit ''error'') = Inl KeyError"
proof -
  have n: "lit ''not-an-ip'' \<noteq> []" by (simp add: lit_def)
  have g: "fst (get_ip_info sample_world (Some (lit ''8.8.8.8''))) = Inr google_record"
    by (simp add: info_8888)
  from invalid_input_error [OF n, of sample_world] invalid_input_error [OF lit_nonempty_8888, of sample_world]
    n not_an_ip validate_8888 g lit_nonempty_8888
  show ?thesis by simp
qed

section \<open>Provider failure\<close>

text \<open>
  C5, as amended. For every address the validator accepts and a database that answers the
  existence query: when the geolocation request raises or its body does not decode as
  JSON, \<open>get_ip_info\<close> returns a dict, not an error, with the same \<open>ip\<close>, every descriptive
  field \<open>Unknown\<close>, empty codes, the globe placeholder as flag, \<open>vpn_detected\<close> false and
  \<open>vpn_type\<close> null.  The status code of a response is never looked at: a response of any
  code whose body decodes to an object is read as provider data.
\<close>

theorem provider_failure_fallback:
  assumes "validate_ip c"
    and "db_connects w" and "db_executes w (SelectCount c)"
  shows "(requests_get w (geo_url (ipapi_token w) c) = NoReply
          \<or> (\<exists>code body. requests_get w (geo_url (ipapi_token w) c) = Reply code body None) \<longrightarrow>
          fst (get_ip_info w (Some c)) =
            Inr (PDict
              [(lit ''status'', PStr (if 0 < length (filter (\<lambda>r. ip_address r = PStr (inet_in w (PStr c))) (ip_records w))
                                      then lit ''duplicate'' else lit ''new'')),
               (lit ''ip'', PStr c),
               (lit ''location'', PDict
                  [(lit ''country'', PStr (lit ''Unknown'')),
                   (lit ''country_code'', PStr []),
                   (lit ''country_flag'', PStr globe),
                   (lit ''continent'', PStr (lit ''Unknown'')),
                   (lit ''continent_code'', PStr []),
                   (lit ''asn'', PStr (lit ''Unknown'')),
                   (lit ''as_name'', PStr (lit ''Unknown'')),
                   (lit ''as_domain'', PStr (lit ''Unknown''))]),
               (lit ''vpn_detected'', PBool False),
               (lit ''vpn_type'', PNone)]))
       \<and> (\<forall>code body geo fl.
            requests_get w (geo_url (ipapi_token w) c) = Reply code body (Some (PDict geo))
            \<and> get_country_flag (unicode_upper w) (dict_get geo (lit ''country_code'') (PStr [])) = Inr fl \<longrightarrow>
            fst (get_ip_info w (Some c)) =
              Inr (ip_info_result
                (if 0 < length (filter (\<lambda>r. ip_address r = PStr (inet_in w (PStr c))) (ip_records w)) then lit ''duplicate'' else lit ''new'')
                c geo (dict_get geo (lit ''country_code'') (PStr [])) fl))"
proof (intro conjI impI allI)
  assume "requests_get w (geo_url (ipapi_token w) c) = NoReply
          \<or> (\<exists>code body. requests_get w (geo_url (ipapi_token w) c) = Reply code body None)"
  then obtain code body where "requests_get w (geo_url (ipapi_token w) c) = NoReply
         \<or> requests_get w (geo_url (ipapi_token w) c) = Reply code body None"
    by blast
  from resolve_ip_no_data [OF this assms(2,3)]
  show "fst (get_ip_info w (Some c)) =
            Inr (PDict
              [(lit ''status'', PStr (if 0 < length (filter (\<lambda>r. ip_address r = PStr (inet_in w (PStr c))) (ip_records w))
                                      then lit ''duplicate'' else lit ''new'')),
               (lit ''ip'', PStr c),
               (lit ''location'', PDict
                  [(lit ''country'', PStr (lit ''Unknown'')),
                   (lit ''country_code'', PStr []),
                   (lit ''country_flag'', PStr globe),
                   (lit ''continent'', PStr (lit ''Unknown'')),
                   (lit ''continent_code'', PStr []),
                   (lit ''asn'', PStr (lit ''Unknown'')),
                   (lit ''as_name'', PStr (lit ''Unknown'')),
                   (lit ''as_domain'', PStr (lit ''Unknown''))]),
               (lit ''vpn_detected'', PBool False),
               (lit ''vpn_type'', PNone)])"
    by (simp add: get_ip_info_custom [OF assms(1)])
next
  fix code body geo fl
  assume a: "requests_get w (geo_url (ipapi_token w) c) = Reply code body (Some (PDict geo))
            \<and> get_country_flag (unicode_upper w) (dict_get geo (lit ''country_code'') (PStr [])) = Inr fl"
  from resolve_ip_reply [OF conjunct1 [OF a] assms(2,3) conjunct2 [OF a]]
  show "fst (get_ip_info w (Some c)) =
              Inr (ip_info_result
                (if 0 < length (filter (\<lambda>r. ip_address r = PStr (inet_in w (PStr c))) (ip_records w)) then lit ''duplicate'' else lit ''new'')
                c geo (dict_get geo (lit ''country_code'') (PStr [])) fl)"
    by (simp add: get_ip_info_custom [OF assms(1)])
qed

theorem provider_failure_fallback_witness:
  "validate_ip (lit ''8.8.8.8'')
   \<and> db_connects (sample_world\<lparr>requests_get := \<lambda>url. NoReply\<rparr>)
   \<and> db_executes (sample_world\<lparr>requests_get := \<lambda>url. NoReply\<rparr>) (SelectCount (lit ''8.8.8.8''))
   \<and> requests_get (sample_world\<lparr>requests_get := \<lambda>url. NoReply\<rparr>)
        (geo_url (ipapi_token (sample_world\<lparr>requests_get := \<lambda>url. NoReply\<rparr>)) (lit ''8.8.8.8'')) = NoReply
   \<and> fst (get_ip_info (sample_world\<lparr>requests_get := \<lambda>url. NoReply\<rparr>) (Some (lit ''8.8.8.8''))) =
        Inr (PDict
              [(lit ''status'', PStr (lit ''new'')),
               (lit ''ip'', PStr (lit ''8.8.8.8'')),
               (lit ''location'', PDict
                  [(lit ''country'', PStr (lit ''Unknown'')),
                   (lit ''country_code'', PStr []),
                   (lit ''country_flag'', PStr globe),
                   (lit ''continent'', PStr (lit ''Unknown'')),
                   (lit ''continent_code'', PStr []),
                   (lit ''asn'', PStr (lit ''Unknown'')),
                   (lit ''as_name'', PStr (lit ''Unknown'')),
                   (lit ''as_domain'', PStr (lit ''Unknown''))]),
               (lit ''vpn_detected'', PBool False),
               (lit ''vpn_type'', PNone)])
   \<and> requests_get sample_world (geo_url (ipapi_token sample_world) (lit ''8.8.8.8'')) = Reply 200 [] (Some (PDict google_geo))
   \<and> fst (get_ip_info sample_world (Some (lit ''8.8.8.8''))) = Inr google_record"
proof -
  let ?w = "sample_world\<lparr>requests_get := \<lambda>url. NoReply\<rparr>"
  have a: "db_connects ?w" "db_executes ?w (SelectCount (lit ''8.8.8.8''))" "db_connects sample_world"
    "db_executes sample_world (SelectCount (lit ''8.8.8.8''))"
    by simp_all
  have fl: "get_country_flag (unicode_upper sample_world) (dict_get google_geo (lit ''country_code'') (PStr [])) = Inr [127482, 127480]"
    by (simp add: google_country_code flag_US)
  from provider_failure_fallback [OF validate_8888 a(1,2)]
    provider_failure_fallback [OF validate_8888 a(3,4)] fl
  show ?thesis
    by (simp add: validate_8888 google_record_def google_country_code)
qed

text \<open>The claim as stated fails for a non-200 response: a 503 answer carrying the object
  \<open>{"country": "Atlantis"}\<close> gives a record whose country is \<open>Atlantis\<close>.\<close>

theorem non_200_reply_counterexample:
  "requests_get
     (sample_world\<lparr>requests_get := \<lambda>url. Reply 503 [] (Some (PDict [(lit ''country'', PStr (lit ''Atlantis''))]))\<rparr>)
     (geo_url None (lit ''8.8.8.8''))
     = Reply 503 [] (Some (PDict [(lit ''country'', PStr (lit ''Atlantis''))]))
   \<and> fst (get_ip_info
        (sample_world\<lparr>requests_get := \<lambda>url. Reply 503 [] (Some (PDict [(lit ''country'', PStr (lit ''Atlantis''))]))\<rparr>)
        (Some (lit ''8.8.8.8''))) =
        Inr (PDict
              [(lit ''status'', PStr (lit ''new'')),
               (lit ''ip'', PStr (lit ''8.8.8.8'')),
               (lit ''location'', PDict
                  [(lit ''country'', PStr (lit ''Atlantis'')),
                   (lit ''country_code'', PStr []),
                   (lit ''country_flag'', PStr globe),
                   (lit ''continent'', PStr (lit ''Unknown'')),
                   (lit ''continent_code'', PStr []),
                   (lit ''asn'', PStr (lit ''Unknown'')),
                   (lit ''as_name'', PStr (lit ''Unknown'')),
                   (lit ''as_domain'', PStr (lit ''Unknown''))]),
               (lit ''vpn_detected'', PBool False),
               (lit ''vpn_type'', PNone)])
   \<and> lit ''Atlantis'' \<noteq> lit ''Unknown''"
proof -
  let ?geo = "[(lit ''country'', PStr (lit ''Atlantis''))]"
  let ?w = "sample_world\<lparr>requests_get := \<lambda>url. Reply 503 [] (Some (PDict ?geo))\<rparr>"
  have cc: "dict_get ?geo (lit ''country_code'') (PStr []) = PStr []"
    by (simp add: dict_get_def lit_def)
  have r: "requests_get ?w (geo_url (ipapi_token ?w) (lit ''8.8.8.8'')) = Reply 503 [] (Some (PDict ?geo))"
    by simp
  have fl: "get_country_flag (unicode_upper ?w) (dict_get ?geo (lit ''country_code'') (PStr [])) = Inr globe"
    by (simp add: cc flag_empty)
  have "resolve_ip ?w (lit ''8.8.8.8'') =
     (Inr (ip_info_result (lit ''new'') (lit ''8.8.8.8'') ?geo (PStr []) globe),
      emit (Execute (SelectCount (lit ''8.8.8.8''))) (emit (HttpGet (geo_url None (lit ''8.8.8.8''))) ?w))"
    using resolve_ip_reply [OF r _ _ fl] by (simp add: cc)
  moreover have "ip_info_result (lit ''new'') (lit ''8.8.8.8'') ?geo (PStr []) globe =
     PDict
              [(lit ''status'', PStr (lit ''new'')),
               (lit ''ip'', PStr (lit ''8.8.8.8'')),
               (lit ''location'', PDict
                  [(lit ''country'', PStr (lit ''Atlantis'')),
                   (lit ''country_code'', PStr []),
                   (lit ''country_flag'', PStr globe),
                   (lit ''continent'', PStr (lit ''Unknown'')),
                   (lit ''continent_code'', PStr []),
                   (lit ''asn'', PStr (lit ''Unknown'')),
                   (lit ''as_name'', PStr (lit ''Unknown'')),
                   (lit ''as_domain'', PStr (lit ''Unknown''))]),
               (lit ''vpn_detected'', PBool False),
               (lit ''vpn_type'', PNone)]"
    by (simp add: ip_info_result_def dict_get_def lit_def)
  moreover have "lit ''Atlantis'' \<noteq> lit ''Unknown''" by (simp add: lit_def)
  ultimately show ?thesis
    by (simp add: get_ip_info_custom [OF validate_8888])
qed

section \<open>The country flag\<close>

text \<open>
  C6. \<open>get_country_flag\<close> depends on the country code only (and on the upper-case table of
  the runtime, which no two-letter ASCII code consults): for two ASCII letters, in either
  case, it returns the two regional-indicator symbols of the letters; for \<open>None\<close>, the empty
  string and every string whose length is not two it returns the globe placeholder.
\<close>

theorem country_flag_of_code:
  "(ascii_letter a \<and> ascii_letter b \<longrightarrow>
      get_country_flag uc (PStr [a, b]) = Inr [regional_indicator a, regional_indicator b])
   \<and> get_country_flag uc PNone = Inr globe
   \<and> get_country_flag uc (PStr []) = Inr globe
   \<and> (length s \<noteq> 2 \<longrightarrow> get_country_flag uc (PStr s) = Inr globe)"
  by (auto simp: get_country_flag_def py_upper_def upper_cp_def ascii_letter_def regional_indicator_def)

theorem country_flag_of_code_witness:
  "ascii_letter 85 \<and> ascii_letter 83
   \<and> get_country_flag (\<lambda>c. [c]) (PStr (lit ''US'')) = Inr [127482, 127480]
   \<and> regional_indicator 85 = 127482 \<and> regional_indicator 83 = 127480
   \<and> get_country_flag (\<lambda>c. [c]) (PStr (lit ''us'')) = Inr [127482, 127480]
   \<and> length (lit ''USA'') \<noteq> 2
   \<and> get_country_flag (\<lambda>c. [c]) (PStr (lit ''USA'')) = Inr [127757]"
  using country_flag_of_code [of 85 83 "\<lambda>c. [c]" "lit ''USA''"] country_flag_of_code [of 117 115 "\<lambda>c. [c]" "lit ''USA''"]
  by (simp add: ascii_letter_def regional_indicator_def lit_def globe_def)

section \<open>The status of a resolution\<close>

text \<open>
  C7. When \<open>get_ip_info\<close> returns a record for the subject address \<open>ip\<close>, its status is
  \<open>duplicate\<close> exactly when the table held a row for the address \<open>ip\<close> stands for before the
  call and \<open>new\<close> otherwise; the existence query is executed after the geolocation request;
  the call leaves the table as it was, and so does \<open>save_ip_to_database\<close> on the returned
  record in any state of the store: the status is never written.
\<close>

theorem status_semantics:
  assumes "subject_ip w custom_ip = (Inr ip, w0)"
    and "get_ip_info w custom_ip = (Inr d, w')"
  shows "subscript d (lit ''status'') =
           Inr (PStr (if 0 < length (filter (\<lambda>r. ip_address r = PStr (inet_in w (PStr ip))) (ip_records w))
                      then lit ''duplicate'' else lit ''new''))
       \<and> trace w' = trace w0 @ [HttpGet (geo_url (ipapi_token w) ip), Execute (SelectCount ip)]
       \<and> ip_records w' = ip_records w
       \<and> (\<forall>w2. ip_records (snd (save_ip_to_database w2 d)) = ip_records w2)"
proof -
  from assms have r: "resolve_ip w0 ip = (Inr d, w')" by (simp add: get_ip_info_def)
  note fr = subject_ip_frame [OF assms(1)]
  from resolve_ip_shape [OF r] obtain st geo cc fl where d: "d = ip_info_result st ip geo cc fl"
    by blast
  have "\<And>w2. ip_records (snd (save_ip_to_database w2 d)) = ip_records w2"
    unfolding d by (simp add: save_ip_to_database_def result_ip insert_values_result)
  with resolve_ip_Inr [OF r] fr show ?thesis by simp
qed

theorem status_semantics_witness:
  "subject_ip sample_world (Some (lit ''8.8.8.8'')) = (Inr (lit ''8.8.8.8''), sample_world)
   \<and> get_ip_info sample_world (Some (lit ''8.8.8.8'')) =
       (Inr google_record,
        emit (Execute (SelectCount (lit ''8.8.8.8''))) (emit (HttpGet (geo_url None (lit ''8.8.8.8''))) sample_world))
   \<and> subscript google_record (lit ''status'') = Inr (PStr (lit ''new''))
   \<and> trace (emit (Execute (SelectCount (lit ''8.8.8.8''))) (emit (HttpGet (geo_url None (lit ''8.8.8.8''))) sample_world))
       = [HttpGet (geo_url None (lit ''8.8.8.8'')), Execute (SelectCount (lit ''8.8.8.8''))]
   \<and> ip_records (snd (save_ip_to_database sample_world google_record)) = []
   \<and> subject_ip (sample_world\<lparr>ip_records := [legacy_row 1000 (lit ''8.8.8.8'') (lit ''United States'')]\<rparr>)
        (Some (lit ''008.8.8.8''))
       = (Inr (lit ''008.8.8.8''),
          sample_world\<lparr>ip_records := [legacy_row 1000 (lit ''8.8.8.8'') (lit ''United States'')]\<rparr>)
   \<and> fst (get_ip_info (sample_world\<lparr>ip_records := [legacy_row 1000 (lit ''8.8.8.8'') (lit ''United States'')]\<rparr>)
        (Some (lit ''008.8.8.8'')))
       = Inr (ip_info_result (lit ''duplicate'') (lit ''008.8.8.8'') google_geo (PStr (lit ''US'')) [127482, 127480])
   \<and> subscript (ip_info_result (lit ''duplicate'') (lit ''008.8.8.8'') google_geo (PStr (lit ''US'')) [127482, 127480])
        (lit ''status'') = Inr (PStr (lit ''duplicate''))"
proof -
  let ?w = "sample_world\<lparr>ip_records := [legacy_row 1000 (lit ''8.8.8.8'') (lit ''United States'')]\<rparr>"
  let ?d = "ip_info_result (lit ''duplicate'') (lit ''008.8.8.8'') google_geo (PStr (lit ''US'')) [127482, 127480]"
  have s: "subject_ip sample_world (Some (lit ''8.8.8.8'')) = (Inr (lit ''8.8.8.8''), sample_world)"
    by (simp add: subject_ip_def validate_8888 lit_nonempty_8888)
  have v: "validate_ip (lit ''008.8.8.8'')"
    by (simp add: validate_ip_eval)
  have n: "lit ''008.8.8.8'' \<noteq> []" by (simp add: lit_def)
  have s2: "subject_ip ?w (Some (lit ''008.8.8.8'')) = (Inr (lit ''008.8.8.8''), ?w)"
    by (simp add: subject_ip_def v n)
  have rq: "requests_get ?w (geo_url (ipapi_token ?w) (lit ''008.8.8.8'')) = Reply 200 [] (Some (PDict google_geo))"
    by simp
  have fl: "get_country_flag (unicode_upper ?w) (dict_get google_geo (lit ''country_code'') (PStr [])) = Inr [127482, 127480]"
    by (simp add: google_country_code flag_US)
  have g2: "get_ip_info ?w (Some (lit ''008.8.8.8'')) =
      (Inr ?d, emit (Execute (SelectCount (lit ''008.8.8.8''))) (emit (HttpGet (geo_url None (lit ''008.8.8.8''))) ?w))"
    using resolve_ip_reply [OF rq _ _ fl]
    by (simp add: get_ip_info_custom [OF v] google_country_code inet_ipv4_samples legacy_row_def)
  from status_semantics [OF s info_8888] status_semantics [OF s2 g2] s info_8888 s2 g2
  show ?thesis
    by (simp add: result_status)
qed

section \<open>The guard of the save handlers\<close>



section \<open>Uniqueness of rows\<close>

text \<open>
  C9. Starting from a table with at most one row for each address (the empty one that
  \<open>init_db\<close> creates, for instance): after any run of \<open>save_ip_to_database\<close> calls the table
  holds at most one row for every address; two accepted saves whose address parameters
  stand for the same address, however spelled, leave exactly one row for it, the row of
  the second save, carrying the country of the second dict and the timestamp of the
  second write; a save that does not return \<open>True\<close> leaves the table as it was; and a save
  that returns \<open>True\<close> leaves the rows of every other address as they were.
\<close>

theorem upsert_uniqueness:
  assumes "distinct (map ip_address (ip_records w))"
  shows "length (filter (\<lambda>x. ip_address x = k) (ip_records (save_all w calls))) \<le> 1
       \<and> (insert_values t1 d1 = Inr r1 \<and> insert_values t2 d2 = Inr r2
          \<and> inet_in w (ip_address r1) = inet_in w (ip_address r2)
          \<and> db_connects w \<and> db_executes w (InsertOnConflict r1) \<and> db_executes w (InsertOnConflict r2) \<longrightarrow>
            filter (\<lambda>x. ip_address x = PStr (inet_in w (ip_address r2)))
              (ip_records (save_all w [(t1, d1), (t2, d2)])) = [as_stored w r2]
          \<and> and_then (subscript d2 (lit ''location'')) (\<lambda>l. subscript l (lit ''country''))
              = Inr (country (as_stored w r2))
          \<and> timestamp (as_stored w r2) = t2)
       \<and> (fst (save_ip_to_database w d) \<noteq> Inr True \<longrightarrow>
            ip_records (snd (save_ip_to_database w d)) = ip_records w)
       \<and> (fst (save_ip_to_database w d) = Inr True \<and> insert_values (current_timestamp w) d = Inr r
          \<and> k \<noteq> PStr (inet_in w (ip_address r)) \<longrightarrow>
            filter (\<lambda>x. ip_address x = k) (ip_records (snd (save_ip_to_database w d)))
              = filter (\<lambda>x. ip_address x = k) (ip_records w))"
proof (intro conjI impI)
  show "length (filter (\<lambda>x. ip_address x = k) (ip_records (save_all w calls))) \<le> 1"
    by (rule distinct_at_most_one) (rule save_all_distinct [OF assms])
next
  assume a: "insert_values t1 d1 = Inr r1 \<and> insert_values t2 d2 = Inr r2
          \<and> inet_in w (ip_address r1) = inet_in w (ip_address r2)
          \<and> db_connects w \<and> db_executes w (InsertOnConflict r1) \<and> db_executes w (InsertOnConflict r2)"
  let ?wa = "w\<lparr>current_timestamp := t1\<rparr>"
  have s1: "save_ip_to_database ?wa d1 =
     (Inr True, emit Commit ((emit (Execute (InsertOnConflict r1)) ?wa)\<lparr>ip_records := upsert (as_stored w r1) (ip_records w)\<rparr>))"
    using save_ok [of ?wa d1 r1] a by simp
  let ?w1 = "emit Commit ((emit (Execute (InsertOnConflict r1)) ?wa)\<lparr>ip_records := upsert (as_stored w r1) (ip_records w)\<rparr>)"
  let ?wb = "?w1\<lparr>current_timestamp := t2\<rparr>"
  have s2: "save_ip_to_database ?wb d2 =
     (Inr True, emit Commit ((emit (Execute (InsertOnConflict r2)) ?wb)
        \<lparr>ip_records := upsert (as_stored w r2) (upsert (as_stored w r1) (ip_records w))\<rparr>))"
    using save_ok [of ?wb d2 r2] a by simp
  have "ip_records (save_all w [(t1, d1), (t2, d2)]) = upsert (as_stored w r2) (upsert (as_stored w r1) (ip_records w))"
    by (simp add: s1 s2)
  moreover have "distinct (map ip_address (upsert (as_stored w r1) (ip_records w)))"
    by (rule upsert_distinct [OF assms])
  ultimately show "filter (\<lambda>x. ip_address x = PStr (inet_in w (ip_address r2)))
              (ip_records (save_all w [(t1, d1), (t2, d2)])) = [as_stored w r2]"
    using upsert_filter [of "upsert (as_stored w r1) (ip_records w)" "as_stored w r2"] by simp
  from a insert_values_fields [of t2 d2 r2]
  show "and_then (subscript d2 (lit ''location'')) (\<lambda>l. subscript l (lit ''country''))
              = Inr (country (as_stored w r2))"
    and "timestamp (as_stored w r2) = t2"
    by simp_all
next
  assume "fst (save_ip_to_database w d) \<noteq> Inr True"
  from save_not_True [OF this] show "ip_records (snd (save_ip_to_database w d)) = ip_records w" .
next
  assume a: "fst (save_ip_to_database w d) = Inr True \<and> insert_values (current_timestamp w) d = Inr r
          \<and> k \<noteq> PStr (inet_in w (ip_address r))"
  then obtain w1 where w1: "save_ip_to_database w d = (Inr True, w1)"
    by (cases "save_ip_to_database w d") simp
  from save_True [OF w1] a have "ip_records w1 = upsert (as_stored w r) (ip_records w)"
    by auto
  with a w1 show "filter (\<lambda>x. ip_address x = k) (ip_records (snd (save_ip_to_database w d)))
              = filter (\<lambda>x. ip_address x = k) (ip_records w)"
    by (simp add: upsert_other)
qed

theorem upsert_uniqueness_witness:
  "distinct (map ip_address (ip_records sample_world))
   \<and> insert_values 1000 (legacy_record (lit ''1.2.3.4'') (lit ''United States''))
        = Inr (legacy_row 1000 (lit ''1.2.3.4'') (lit ''United States''))
   \<and> insert_values 2000 (legacy_record (lit ''01.2.3.4'') (lit ''Canada''))
        = Inr (legacy_row 2000 (lit ''01.2.3.4'') (lit ''Canada''))
   \<and> inet_in sample_world (PStr (lit ''1.2.3.4'')) = lit ''1.2.3.4''
   \<and> inet_in sample_world (PStr (lit ''01.2.3.4'')) = lit ''1.2.3.4''
   \<and> db_connects sample_world
   \<and> db_executes sample_world (InsertOnConflict (legacy_row 1000 (lit ''1.2.3.4'') (lit ''United States'')))
   \<and> db_executes sample_world (InsertOnConflict (legacy_row 2000 (lit ''01.2.3.4'') (lit ''Canada'')))
   \<and> ip_records (save_all sample_world
          [(1000, legacy_record (lit ''1.2.3.4'') (lit ''United States'')),
           (2000, legacy_record (lit ''01.2.3.4'') (lit ''Canada''))])
        = [(legacy_row 2000 (lit ''01.2.3.4'') (lit ''Canada''))\<lparr>ip_address := PStr (lit ''1.2.3.4'')\<rparr>]
   \<and> country ((legacy_row 2000 (lit ''01.2.3.4'') (lit ''Canada''))\<lparr>ip_address := PStr (lit ''1.2.3.4'')\<rparr>)
        = PStr (lit ''Canada'')
   \<and> timestamp ((legacy_row 2000 (lit ''01.2.3.4'') (lit ''Canada''))\<lparr>ip_address := PStr (lit ''1.2.3.4'')\<rparr>) = 2000
   \<and> fst (save_ip_to_database sample_world google_record) \<noteq> Inr True
   \<and> ip_records (snd (save_ip_to_database sample_world google_record)) = ip_records sample_world
   \<and> fst (save_ip_to_database
            (sample_world\<lparr>ip_records := [legacy_row 1000 (lit ''8.8.8.8'') (lit ''United States'')]\<rparr>)
            (legacy_record (lit ''1.2.3.4'') (lit ''Canada''))) = Inr True
   \<and> PStr (lit ''8.8.8.8'') \<noteq> PStr (lit ''1.2.3.4'')
   \<and> filter (\<lambda>x. ip_address x = PStr (lit ''8.8.8.8''))
        (ip_records (snd (save_ip_to_database
            (sample_world\<lparr>ip_records := [legacy_row 1000 (lit ''8.8.8.8'') (lit ''United States'')]\<rparr>)
            (legacy_record (lit ''1.2.3.4'') (lit ''Canada'')))))
        = [legacy_row 1000 (lit ''8.8.8.8'') (lit ''United States'')]"
proof -
  let ?d1 = "legacy_record (lit ''1.2.3.4'') (lit ''United States'')"
  let ?d2 = "legacy_record (lit ''01.2.3.4'') (lit ''Canada'')"
  let ?r1 = "legacy_row 1000 (lit ''1.2.3.4'') (lit ''United States'')"
  let ?r2 = "legacy_row 2000 (lit ''01.2.3.4'') (lit ''Canada'')"
  let ?old = "legacy_row 1000 (lit ''8.8.8.8'') (lit ''United States'')"
  let ?w8 = "sample_world\<lparr>ip_records := [?old]\<rparr>"
  let ?d3 = "legacy_record (lit ''1.2.3.4'') (lit ''Canada'')"
  let ?r3 = "legacy_row 1000 (lit ''1.2.3.4'') (lit ''Canada'')"
  have k: "ip_address ?r1 = PStr (lit ''1.2.3.4'')" "ip_address ?r2 = PStr (lit ''01.2.3.4'')"
    "ip_address ?r3 = PStr (lit ''1.2.3.4'')" "ip_address ?old = PStr (lit ''8.8.8.8'')"
    "country ?r2 = PStr (lit ''Canada'')" "timestamp ?r2 = 2000"
    by (simp_all add: legacy_row_def)
  have ne: "lit ''8.8.8.8'' \<noteq> lit ''1.2.3.4''" by (simp add: lit_def)
  have st: "as_stored sample_world ?r2 = ?r2\<lparr>ip_address := PStr (lit ''1.2.3.4'')\<rparr>"
    by (simp add: as_stored_def k inet_ipv4_samples)
  have h0: "distinct (map ip_address (ip_records sample_world))" by simp
  have h8: "distinct (map ip_address (ip_records ?w8))" by simp
  have iv: "insert_values 1000 ?d1 = Inr ?r1" "insert_values 2000 ?d2 = Inr ?r2"
    "insert_values (current_timestamp ?w8) ?d3 = Inr ?r3"
    by (simp_all add: insert_values_legacy)
  have same: "inet_in sample_world (ip_address ?r1) = inet_in sample_world (ip_address ?r2)"
    by (simp add: k inet_ipv4_samples)
  have g: "fst (save_ip_to_database sample_world google_record) \<noteq> Inr True"
    unfolding google_record_def by (simp add: save_result)
  have s3: "fst (save_ip_to_database ?w8 ?d3) = Inr True"
    using legacy_save [of ?w8 "lit ''1.2.3.4''" "lit ''Canada''"] by simp
  note T1 = upsert_uniqueness [where w = sample_world and k = "PStr (lit ''1.2.3.4'')"
      and calls = "[(1000, ?d1), (2000, ?d2)]" and ?t1.0 = 1000 and ?d1.0 = ?d1 and ?r1.0 = ?r1
      and ?t2.0 = 2000 and ?d2.0 = ?d2 and ?r2.0 = ?r2 and d = google_record and r = ?r1, OF h0]
  note T2 = upsert_uniqueness [where w = ?w8 and k = "PStr (lit ''8.8.8.8'')"
      and calls = "[]" and ?t1.0 = 1000 and ?d1.0 = ?d1 and ?r1.0 = ?r1
      and ?t2.0 = 2000 and ?d2.0 = ?d2 and ?r2.0 = ?r2 and d = ?d3 and r = ?r3, OF h8]
  have two: "filter (\<lambda>x. ip_address x = PStr (inet_in sample_world (ip_address ?r2)))
              (ip_records (save_all sample_world [(1000, ?d1), (2000, ?d2)])) = [as_stored sample_world ?r2]"
    using T1 iv same by simp
  have one: "length (filter (\<lambda>x. ip_address x = PStr (lit ''1.2.3.4''))
      (ip_records (save_all sample_world [(1000, ?d1), (2000, ?d2)]))) \<le> 1"
    using T1 by blast
  have failed: "ip_records (snd (save_ip_to_database sample_world google_record)) = ip_records sample_world"
    using T1 g by blast
  have other: "filter (\<lambda>x. ip_address x = PStr (lit ''8.8.8.8'')) (ip_records (snd (save_ip_to_database ?w8 ?d3)))
      = filter (\<lambda>x. ip_address x = PStr (lit ''8.8.8.8'')) (ip_records ?w8)"
    using T2 s3 iv(3) ne by (simp add: k inet_ipv4_samples)
  have all: "ip_records (save_all sample_world [(1000, ?d1), (2000, ?d2)]) = [?r2\<lparr>ip_address := PStr (lit ''1.2.3.4'')\<rparr>]"
    using legacy_save [of "sample_world\<lparr>current_timestamp := 1000\<rparr>" "lit ''1.2.3.4''" "lit ''United States''"]
      legacy_save [of "(emit Commit ((emit (Execute (InsertOnConflict ?r1)) (sample_world\<lparr>current_timestamp := 1000\<rparr>))
           \<lparr>ip_records := [as_stored sample_world ?r1]\<rparr>))\<lparr>current_timestamp := 2000\<rparr>" "lit ''01.2.3.4''" "lit ''Canada''"]
    by (simp add: upsert_def st k as_stored_def inet_ipv4_samples)
  from two one failed other all iv(1,2) g s3 ne k
  show ?thesis
    by (simp add: inet_ipv4_samples)
qed

section \<open>The address of the client\<close>




end
